theory Spec2Isabelle
  imports Main "HOL-Library.Sublist"
begin

section \<open>Python strings\<close>

text \<open>
  A Python \<open>str\<close> is the list of its characters, each one its Unicode code point:
  \<open>len\<close> and slices count characters, as \<open>length\<close> and \<open>take\<close> do here. A literal
  of the source is written \<open>lit ''...''\<close>; a character of a literal outside ASCII
  is written as its code point.
\<close>

type_synonym pystr = "nat list"

definition lit :: "string \<Rightarrow> pystr" where
  "lit s = map of_char s"

definition sq :: string where
  "sq = [CHR 0x27]"

definition nl :: pystr where
  "nl = [0x0A]"

text \<open>The lines of a triple-quoted literal, each one closed by its line feed.\<close>

definition text_lines :: "pystr list \<Rightarrow> pystr" where
  "text_lines ls = concat (map (\<lambda>l. l @ nl) ls)"

text \<open>
  \<open>str.lower()\<close> is a built-in of Python, outside the repository, and its table of
  case mappings covers all of Unicode (U+212A KELVIN SIGN becomes \<open>k\<close>, for one): the
  functions that call it take it as their first parameter, \<open>str_lower\<close>, and what is
  proved of them holds whatever that function is.
\<close>

type_synonym lower_fn = "pystr \<Rightarrow> pystr"

text \<open>\<open>sub in s\<close> on strings: \<open>sub\<close> occurs in \<open>s\<close> as a contiguous block.\<close>

fun contains :: "'a list \<Rightarrow> 'a list \<Rightarrow> bool" where
  "contains sub [] = (sub = [])"
| "contains sub (c # cs) = (prefix sub (c # cs) \<or> contains sub cs)"

text \<open>
  The characters that \<open>str.strip()\<close> removes, those for which \<open>str.isspace\<close> holds:
  U+0009..U+000D, U+001C..U+0020, U+0085, U+00A0, U+1680, U+2000..U+200A, U+2028,
  U+2029, U+202F, U+205F and U+3000.
\<close>

definition isspace :: "nat \<Rightarrow> bool" where
  "isspace c =
     (c \<in> set [0x09, 0x0A, 0x0B, 0x0C, 0x0D, 0x1C, 0x1D, 0x1E, 0x1F, 0x20,
                0x85, 0xA0, 0x1680,
                0x2000, 0x2001, 0x2002, 0x2003, 0x2004, 0x2005, 0x2006, 0x2007,
                0x2008, 0x2009, 0x200A,
                0x2028, 0x2029, 0x202F, 0x205F, 0x3000])"

definition lstrip :: "pystr \<Rightarrow> pystr" where
  "lstrip s = dropWhile isspace s"

definition rstrip :: "pystr \<Rightarrow> pystr" where
  "rstrip s = rev (dropWhile isspace (rev s))"

definition strip :: "pystr \<Rightarrow> pystr" where
  "strip s = rstrip (lstrip s)"

text \<open>
  \<open>str(n)\<close> for a natural number and for an integer: the decimal digits, which are
  the ten characters from \<open>0\<close> on.
\<close>

fun str_nat :: "nat \<Rightarrow> pystr" where
  "str_nat n =
     (if n < 10 then [of_char (CHR ''0'') + n]
      else str_nat (n div 10) @ [of_char (CHR ''0'') + n mod 10])"

definition str_int :: "int \<Rightarrow> pystr" where
  "str_int i = (if i < 0 then (lit ''-'') @ str_nat (nat (- i)) else str_nat (nat i))"

text \<open>\<open>sep.join(xs)\<close>.\<close>

fun join :: "pystr \<Rightarrow> pystr list \<Rightarrow> pystr" where
  "join sep [] = []"
| "join sep [x] = x"
| "join sep (x # y # ys) = x @ sep @ join sep (y # ys)"

text \<open>
  The \<open>arguments\<close> of a call are a dict from parameter names to values. Every
  parameter of every tool is declared with \<open>"type": "string"\<close>, so the values are
  strings. \<open>arguments.get(key, default)\<close>:
\<close>

definition get_arg :: "(pystr \<rightharpoonup> pystr) \<Rightarrow> pystr \<Rightarrow> pystr \<Rightarrow> pystr" where
  "get_arg arguments key dflt = (case arguments key of Some v \<Rightarrow> v | None \<Rightarrow> dflt)"

text \<open>
  What a call did besides returning its report: the adapter functions it ran, in
  order. The live adapters talk to services outside the program; they are
  parameters of the model. Console logging (\<open>print\<close>) is left out.
\<close>

datatype adapter_call =
    Convert_Cql pystr pystr
  | Validate_Cql pystr
  | Sms_Real pystr pystr
  | Sms_Mock pystr pystr
  | Sql_Real pystr
  | Sql_Mock pystr
  | Lookup_Real pystr
  | Lookup_Mock pystr

record outcome =
  report :: pystr
  invoked :: "adapter_call list"

text \<open>
  A \<open>Tool\<close> of \<open>list_tools\<close>: its name and its \<open>inputSchema\<close> (the properties with
  their \<open>enum\<close> and \<open>default\<close> where declared, and the \<open>required\<close> list). The prose
  of the \<open>description\<close> fields is left out.
\<close>

record property =
  p_name :: pystr
  p_type :: pystr
  p_enum :: "pystr list option"
  p_default :: "pystr option"

record tool =
  t_name :: pystr
  t_properties :: "property list"
  t_required :: "pystr list"

section \<open>cql\_mcp\_server.py\<close>

text \<open>
  \<open>CQL_TO_SQL_TEMPLATES\<close> is a dict with two entries; the two subscripts in
  \<open>convert_cql_to_sql\<close> read exactly these.
\<close>

definition template_diabetes_hba1c_gap :: pystr where
  "template_diabetes_hba1c_gap = nl @ text_lines (map lit [
     ''-- Spark SQL: Patients with Diabetes who haven't had HbA1c in 6 months'',
     ''-- Generated from CQL: DiabetesHbA1cGap measure logic'',
     '''',
     ''WITH diabetes_patients AS ('',
     ''    SELECT DISTINCT'',
     ''        p.id AS patient_id,'',
     ''        p.gender,'',
     ''        FLOOR(DATEDIFF(CURRENT_DATE(), p.birthDate) / 365.25) AS age,'',
     ''        CONCAT(n.given[0], ' ', n.family) AS patient_name'',
     ''    FROM patient p'',
     ''    LATERAL VIEW EXPLODE(p.name) AS n'',
     ''    WHERE EXISTS ('',
     ''        SELECT 1 FROM condition c'',
     ''        WHERE c.subject.reference = CONCAT('Patient/', p.id)'',
     ''        AND c.code.coding[0].system = 'http://snomed.info/sct'' @ sq,
     ''        AND c.code.coding[0].code IN ('44054006', '46635009', '73211009', '313436004')'',
     ''        -- SNOMED codes for Type 1, Type 2, Diabetes mellitus, Diabetes unspecified'',
     ''        AND c.clinicalStatus.coding[0].code = 'active'' @ sq,
     ''    )'',
     ''),'',
     '''',
     ''latest_hba1c AS ('',
     ''    SELECT'',
     ''        REPLACE(o.subject.reference, 'Patient/', '' @ sq @ sq @ '') AS patient_id,'',
     ''        MAX(COALESCE(o.effectiveDateTime, o.issued)) AS last_hba1c_date,'',
     ''        FIRST(o.valueQuantity.value) AS last_hba1c_value'',
     ''    FROM observation o'',
     ''    WHERE o.code.coding[0].code IN ('4548-4', '4549-2', '17856-6')'',
     ''    -- LOINC codes for HbA1c'',
     ''    AND o.status = 'final'' @ sq,
     ''    GROUP BY REPLACE(o.subject.reference, 'Patient/', '' @ sq @ sq @ '')'',
     ''),'',
     '''',
     ''risk_stratification AS ('',
     ''    SELECT'',
     ''        dp.patient_id,'',
     ''        dp.patient_name,'',
     ''        dp.age,'',
     ''        dp.gender,'',
     ''        lh.last_hba1c_date,'',
     ''        lh.last_hba1c_value,'',
     ''        DATEDIFF(CURRENT_DATE(), lh.last_hba1c_date) AS days_since_last_test,'',
     ''        CASE'',
     ''            WHEN lh.last_hba1c_date IS NULL THEN 'CRITICAL'' @ sq,
     ''            WHEN DATEDIFF(CURRENT_DATE(), lh.last_hba1c_date) > 180 THEN 'HIGH'' @ sq,
     ''            WHEN DATEDIFF(CURRENT_DATE(), lh.last_hba1c_date) > 90 THEN 'MODERATE'' @ sq,
     ''            ELSE 'LOW'' @ sq,
     ''        END AS risk_level,'',
     ''        CASE'',
     ''            WHEN lh.last_hba1c_value >= 9.0 THEN 'UNCONTROLLED'' @ sq,
     ''            WHEN lh.last_hba1c_value >= 7.0 THEN 'ABOVE_TARGET'' @ sq,
     ''            WHEN lh.last_hba1c_value >= 5.7 THEN 'AT_TARGET'' @ sq,
     ''            ELSE 'NORMAL'' @ sq,
     ''        END AS glycemic_control'',
     ''    FROM diabetes_patients dp'',
     ''    LEFT JOIN latest_hba1c lh ON dp.patient_id = lh.patient_id'',
     '')'',
     '''',
     ''SELECT'',
     ''    patient_id,'',
     ''    patient_name,'',
     ''    age,'',
     ''    gender,'',
     ''    last_hba1c_date,'',
     ''    last_hba1c_value,'',
     ''    days_since_last_test,'',
     ''    risk_level,'',
     ''    glycemic_control,'',
     ''    CASE'',
     ''        WHEN risk_level = 'CRITICAL' THEN 100'',
     ''        WHEN risk_level = 'HIGH' AND glycemic_control = 'UNCONTROLLED' THEN 95'',
     ''        WHEN risk_level = 'HIGH' THEN 85'',
     ''        WHEN risk_level = 'MODERATE' AND glycemic_control IN ('UNCONTROLLED', 'ABOVE_TARGET') THEN 70'',
     ''        WHEN risk_level = 'MODERATE' THEN 50'',
     ''        ELSE 20'',
     ''    END AS outreach_priority_score'',
     ''FROM risk_stratification'',
     ''WHERE risk_level IN ('CRITICAL', 'HIGH', 'MODERATE')'',
     ''ORDER BY outreach_priority_score DESC, days_since_last_test DESC''])"

definition template_breast_cancer_screening :: pystr where
  "template_breast_cancer_screening = nl @ text_lines (map lit [
     ''-- Spark SQL: CMS125 Breast Cancer Screening Measure'',
     ''-- Generated from CQL: BreastCancerScreening v2.0.0'',
     '''',
     ''WITH initial_population AS ('',
     ''    SELECT DISTINCT'',
     ''        p.id AS patient_id,'',
     ''        p.gender,'',
     ''        FLOOR(DATEDIFF(DATE('2024-12-31'), p.birthDate) / 365.25) AS age_at_period_end'',
     ''    FROM patient p'',
     ''    WHERE p.gender = 'female'' @ sq,
     ''    AND FLOOR(DATEDIFF(DATE('2024-12-31'), p.birthDate) / 365.25) BETWEEN 51 AND 74'',
     ''),'',
     '''',
     ''qualifying_encounters AS ('',
     ''    SELECT DISTINCT'',
     ''        REPLACE(e.subject.reference, 'Patient/', '' @ sq @ sq @ '') AS patient_id'',
     ''    FROM encounter e'',
     ''    WHERE e.status = 'finished'' @ sq,
     ''    AND e.period.start >= DATE_SUB(DATE('2024-12-31'), 730)'',
     ''    AND e.type.coding[0].code IN ('99201', '99202', '99203', '99204', '99205','',
     ''                                   '99211', '99212', '99213', '99214', '99215')'',
     ''),'',
     '''',
     ''denominator_exclusions AS ('',
     ''    SELECT DISTINCT'',
     ''        REPLACE(pr.subject.reference, 'Patient/', '' @ sq @ sq @ '') AS patient_id'',
     ''    FROM procedure pr'',
     ''    WHERE pr.code.coding[0].code IN ('27865001', '0HTV0ZZ', '0HTU0ZZ')'',
     ''    -- Bilateral mastectomy codes'',
     ''    AND pr.status = 'completed'' @ sq,
     ''),'',
     '''',
     ''numerator AS ('',
     ''    SELECT DISTINCT'',
     ''        REPLACE(o.subject.reference, 'Patient/', '' @ sq @ sq @ '') AS patient_id,'',
     ''        o.effectiveDateTime AS mammogram_date'',
     ''    FROM observation o'',
     ''    WHERE o.code.coding[0].code IN ('24606-6', '24605-8', '24610-8')'',
     ''    -- LOINC mammography codes'',
     ''    AND o.status = 'final'' @ sq,
     ''    AND o.effectiveDateTime >= DATE_SUB(DATE('2024-12-31'), 821)'',
     ''    -- 27 months lookback'',
     '')'',
     '''',
     ''SELECT'',
     ''    ip.patient_id,'',
     ''    ip.age_at_period_end AS age,'',
     ''    CASE WHEN qe.patient_id IS NOT NULL THEN 1 ELSE 0 END AS in_denominator,'',
     ''    CASE WHEN de.patient_id IS NOT NULL THEN 1 ELSE 0 END AS excluded,'',
     ''    CASE WHEN n.patient_id IS NOT NULL THEN 1 ELSE 0 END AS in_numerator,'',
     ''    n.mammogram_date AS last_mammogram,'',
     ''    CASE'',
     ''        WHEN de.patient_id IS NOT NULL THEN 'EXCLUDED'' @ sq,
     ''        WHEN qe.patient_id IS NULL THEN 'NOT_IN_DENOMINATOR'' @ sq,
     ''        WHEN n.patient_id IS NOT NULL THEN 'MET'' @ sq,
     ''        ELSE 'GAP'' @ sq,
     ''    END AS measure_status'',
     ''FROM initial_population ip'',
     ''LEFT JOIN qualifying_encounters qe ON ip.patient_id = qe.patient_id'',
     ''LEFT JOIN denominator_exclusions de ON ip.patient_id = de.patient_id'',
     ''LEFT JOIN numerator n ON ip.patient_id = n.patient_id'',
     ''ORDER BY measure_status, ip.patient_id''])"

definition CQL_TO_SQL_TEMPLATES :: "(pystr \<times> pystr) list" where
  "CQL_TO_SQL_TEMPLATES =
     [(lit ''diabetes_hba1c_gap'', template_diabetes_hba1c_gap),
      (lit ''breast_cancer_screening'', template_breast_cancer_screening)]"

text \<open>The f-string of the \<open>else\<close> branch of \<open>convert_cql_to_sql\<close>.\<close>

definition generic_template :: "pystr \<Rightarrow> pystr \<Rightarrow> pystr" where
  "generic_template cql_logic target_dialect =
     nl @ text_lines (
       [lit ''-- Spark SQL: Generated from CQL expression'',
        lit ''-- Target dialect: '' @ target_dialect,
        lit ''--'',
        lit ''-- Original CQL:'',
        lit ''-- '' @ take 200 cql_logic
          @ (if length cql_logic > 200 then lit ''...'' else [])]
       @ map lit [
     '''',
     ''WITH patient_cohort AS ('',
     ''    SELECT'',
     ''        p.id AS patient_id,'',
     ''        CONCAT(n.given[0], ' ', n.family) AS patient_name,'',
     ''        p.gender,'',
     ''        p.birthDate,'',
     ''        FLOOR(DATEDIFF(CURRENT_DATE(), p.birthDate) / 365.25) AS age'',
     ''    FROM patient p'',
     ''    LATERAL VIEW EXPLODE(p.name) AS n'',
     ''    WHERE p.active = true'',
     ''),'',
     '''',
     ''qualifying_conditions AS ('',
     ''    SELECT'',
     ''        REPLACE(c.subject.reference, 'Patient/', '' @ sq @ sq @ '') AS patient_id,'',
     ''        c.code.coding[0].display AS condition_name,'',
     ''        c.onsetDateTime AS onset_date'',
     ''    FROM condition c'',
     ''    WHERE c.clinicalStatus.coding[0].code = 'active'' @ sq,
     ''),'',
     '''',
     ''measure_evaluation AS ('',
     ''    SELECT'',
     ''        pc.patient_id,'',
     ''        pc.patient_name,'',
     ''        pc.age,'',
     ''        pc.gender,'',
     ''        qc.condition_name,'',
     ''        CASE'',
     ''            WHEN qc.patient_id IS NOT NULL THEN 'IN_MEASURE'' @ sq,
     ''            ELSE 'EXCLUDED'' @ sq,
     ''        END AS measure_status'',
     ''    FROM patient_cohort pc'',
     ''    LEFT JOIN qualifying_conditions qc ON pc.patient_id = qc.patient_id'',
     '')'',
     '''',
     ''SELECT * FROM measure_evaluation'',
     ''WHERE measure_status = 'IN_MEASURE'' @ sq,
     ''ORDER BY patient_name''])"

definition convert_cql_to_sql :: "lower_fn \<Rightarrow> pystr \<Rightarrow> pystr \<Rightarrow> pystr" where
  "convert_cql_to_sql str_lower cql_logic target_dialect =
     (let cql_lower = str_lower cql_logic;
          sql =
            (if contains (lit ''diabetes'') cql_lower \<or> contains (lit ''hba1c'') cql_lower
                \<or> contains (lit ''a1c'') cql_lower
             then template_diabetes_hba1c_gap
             else if contains (lit ''breast'') cql_lower \<or> contains (lit ''mammog'') cql_lower
                \<or> contains (lit ''cms125'') cql_lower
             then template_breast_cancer_screening
             else generic_template cql_logic target_dialect)
      in strip sql)"

text \<open>
  The dict returned by \<open>validate_cql\<close>. Its keys are read with \<open>result["valid"]\<close>
  and \<open>result.get(...)\<close> only, so a key that is absent and a key bound to \<open>None\<close>
  are both \<open>None\<close> here.
\<close>

record validation =
  valid :: bool
  errors :: "pystr list option"
  warnings :: "pystr list option"
  message :: "pystr option"

definition validate_cql :: "lower_fn \<Rightarrow> pystr \<Rightarrow> validation" where
  "validate_cql str_lower cql_expression =
     (if cql_expression = [] \<or> strip cql_expression = [] then
        \<lparr>valid = False, errors = Some [lit ''CQL expression cannot be empty''],
         warnings = None, message = None\<rparr>
      else
        let ws = [];
            ws = (if \<not> contains (lit ''define'') (str_lower cql_expression)
                  then ws @ [lit ''Consider using 'define' statements for reusable expressions'']
                  else ws);
            ws = (if \<not> contains (lit ''library'') (str_lower cql_expression)
                  then ws @ [lit ''Missing library declaration - recommended for production CQL'']
                  else ws)
        in \<lparr>valid = True, errors = None,
            warnings = (if ws \<noteq> [] then Some ws else None),
            message = Some (lit ''CQL expression is syntactically valid'')\<rparr>)"

text \<open>The two response builders of \<open>call_tool\<close>, then \<open>call_tool\<close> itself.\<close>

definition convert_response :: "pystr \<Rightarrow> pystr \<Rightarrow> pystr" where
  "convert_response target_dialect sql =
     text_lines [
       lit ''## CQL to SQL Conversion Complete'',
       [],
       lit ''**Target Dialect:** '' @ target_dialect,
       lit ''**Conversion Status:** Success'',
       [],
       lit ''### Generated SQL:'',
       [],
       lit ''```sql'',
       sql,
       lit ''```'',
       [],
       lit ''### Conversion Notes:'',
       lit ''- CQL clinical logic preserved in SQL CTEs (Common Table Expressions)'',
       lit ''- FHIR resource paths mapped to SQL table/column references'',
       lit ''- Terminology codes (SNOMED, LOINC, ICD) embedded for filtering'',
       lit ''- Risk stratification logic included for patient prioritization'',
       [],
       lit ''*This SQL is ready for execution on your '' @ target_dialect @ lit '' platform.*'']"

definition bullet_lines :: "pystr list \<Rightarrow> pystr" where
  "bullet_lines xs = concat (map (\<lambda>x. lit ''- '' @ x @ nl) xs)"

definition validate_response :: "validation \<Rightarrow> pystr" where
  "validate_response result =
     (let status = (if valid result then (lit ''Valid'') else (lit ''Invalid''));
          response = lit ''## CQL Validation Result: '' @ status @ nl @ nl;
          response =
            (case errors result of
               Some es \<Rightarrow>
                 if es \<noteq> [] then response @ lit ''### Errors:'' @ nl @ bullet_lines es
                 else response
             | None \<Rightarrow> response);
          response =
            (case warnings result of
               Some ws \<Rightarrow>
                 if ws \<noteq> [] then response @ nl @ lit ''### Warnings:'' @ nl @ bullet_lines ws
                 else response
             | None \<Rightarrow> response);
          response =
            (case message result of
               Some m \<Rightarrow> if m \<noteq> [] then response @ nl @ m else response
             | None \<Rightarrow> response)
      in response)"

definition cql_call_tool :: "lower_fn \<Rightarrow> pystr \<Rightarrow> (pystr \<rightharpoonup> pystr) \<Rightarrow> outcome" where
  "cql_call_tool str_lower name arguments =
     (if name = lit ''convert_cql_to_sql'' then
        let cql_logic = get_arg arguments (lit ''cql_logic'') [];
            target_dialect = get_arg arguments (lit ''target_dialect'') (lit ''spark-sql'');
            sql = convert_cql_to_sql str_lower cql_logic target_dialect
        in \<lparr>report = convert_response target_dialect sql,
            invoked = [Convert_Cql cql_logic target_dialect]\<rparr>
      else if name = lit ''validate_cql'' then
        let cql_expression = get_arg arguments (lit ''cql_expression'') [];
            result = validate_cql str_lower cql_expression
        in \<lparr>report = validate_response result,
            invoked = [Validate_Cql cql_expression]\<rparr>
      else
        \<lparr>report = lit ''Unknown tool: '' @ name, invoked = []\<rparr>)"

definition cql_list_tools :: "tool list" where
  "cql_list_tools =
     [\<lparr>t_name = lit ''convert_cql_to_sql'',
       t_properties =
         [\<lparr>p_name = lit ''cql_logic'', p_type = lit ''string'', p_enum = None, p_default = None\<rparr>,
          \<lparr>p_name = lit ''target_dialect'', p_type = lit ''string'',
           p_enum = Some [lit ''spark-sql'', lit ''snowflake'', lit ''bigquery'', lit ''postgresql''],
           p_default = Some (lit ''spark-sql'')\<rparr>],
       t_required = [lit ''cql_logic'']\<rparr>,
      \<lparr>t_name = lit ''validate_cql'',
       t_properties =
         [\<lparr>p_name = lit ''cql_expression'', p_type = lit ''string'', p_enum = None, p_default = None\<rparr>],
       t_required = [lit ''cql_expression'']\<rparr>]"

section \<open>action\_mcp\_server.py\<close>

text \<open>The three module constants read from the environment when the module is loaded.\<close>

record twilio_config =
  TWILIO_ACCOUNT_SID :: pystr
  TWILIO_AUTH_TOKEN :: pystr
  TWILIO_FROM_NUMBER :: pystr

text \<open>
  The Twilio client, outside the program: account SID, auth token, body, from-number
  and to-number give the \<open>sid\<close> of the created message (\<open>Inr\<close>), or an exception is
  raised inside the \<open>try\<close> block (\<open>Inl\<close>, with the text of \<open>str(e)\<close>).
\<close>

type_synonym twilio_client =
  "pystr \<Rightarrow> pystr \<Rightarrow> pystr \<Rightarrow> pystr \<Rightarrow> pystr \<Rightarrow> pystr + pystr"

text \<open>
  What \<open>datetime.now()\<close> gives during one call: \<open>now_compact\<close> is the
  \<open>strftime('%Y%m%d%H%M%S')\<close> text that \<open>send_sms_mock\<close> puts in the message sid, and
  \<open>now_iso\<close> the \<open>isoformat()\<close> text of the timestamp.
\<close>

record clock =
  now_compact :: pystr
  now_iso :: pystr

text \<open>
  The dict built by \<open>send_sms_mock\<close> (the only thing ever appended to
  \<open>SENT_MESSAGES\<close>), and the three shapes of dict a send can return, told apart by
  their \<open>"status"\<close>: \<open>"sent"\<close> (message sid, to, body, timestamp), \<open>"simulated"\<close>
  and \<open>"error"\<close> (error, to).
\<close>

record sms_record =
  sms_status :: pystr
  sms_message_sid :: pystr
  sms_to :: pystr
  sms_body :: pystr
  sms_timestamp :: pystr
  sms_note :: pystr

datatype sms_result =
    Sms_Sent pystr pystr pystr pystr
  | Sms_Simulated sms_record
  | Sms_Error pystr pystr

definition send_sms_real ::
  "twilio_config \<Rightarrow> twilio_client \<Rightarrow> clock \<Rightarrow> pystr \<Rightarrow> pystr \<Rightarrow> sms_result" where
  "send_sms_real cfg client clk phone_number message_body =
     (case client (TWILIO_ACCOUNT_SID cfg) (TWILIO_AUTH_TOKEN cfg) message_body
             (TWILIO_FROM_NUMBER cfg) phone_number of
        Inr sid \<Rightarrow> Sms_Sent sid phone_number message_body (now_iso clk)
      | Inl e \<Rightarrow> Sms_Error e phone_number)"

text \<open>\<open>send_sms_mock\<close> returns its dict and appends it to \<open>SENT_MESSAGES\<close>.\<close>

definition send_sms_mock ::
  "clock \<Rightarrow> pystr \<Rightarrow> pystr \<Rightarrow> sms_record list \<Rightarrow> sms_record \<times> sms_record list" where
  "send_sms_mock clk phone_number message_body SENT_MESSAGES =
     (let result =
        \<lparr>sms_status = lit ''simulated'',
         sms_message_sid = lit ''SM_MOCK_'' @ now_compact clk,
         sms_to = phone_number,
         sms_body = message_body,
         sms_timestamp = now_iso clk,
         sms_note = lit ''Demo mode - set TWILIO_* env vars to send real SMS''\<rparr>
      in (result, SENT_MESSAGES @ [result]))"

definition action_list_tools :: "tool list" where
  "action_list_tools =
     [\<lparr>t_name = lit ''send_sms_notification'',
       t_properties =
         [\<lparr>p_name = lit ''phone_number'', p_type = lit ''string'', p_enum = None, p_default = None\<rparr>,
          \<lparr>p_name = lit ''message_body'', p_type = lit ''string'', p_enum = None, p_default = None\<rparr>],
       t_required = [lit ''phone_number'', lit ''message_body'']\<rparr>,
      \<lparr>t_name = lit ''get_sent_messages'', t_properties = [], t_required = []\<rparr>]"

text \<open>The reports of \<open>call_tool\<close>.\<close>

definition sent_response ::
  "pystr \<Rightarrow> pystr \<Rightarrow> pystr \<Rightarrow> pystr \<Rightarrow> pystr \<Rightarrow> pystr option \<Rightarrow> pystr" where
  "sent_response mode to_number message_sid timestamp body note =
     (let response = text_lines [
            lit ''## SMS Notification Sent '' @ [0x2705],
            [],
            lit ''**Mode:** '' @ mode,
            lit ''**To:** '' @ to_number,
            lit ''**Message SID:** '' @ message_sid,
            lit ''**Timestamp:** '' @ timestamp,
            [],
            lit ''### Message Content:'',
            lit ''> '' @ body]
      in case note of
           Some n \<Rightarrow> if n \<noteq> [] then response @ nl @ lit ''*'' @ n @ lit ''*'' else response
         | None \<Rightarrow> response)"

definition failed_response :: "pystr \<Rightarrow> pystr \<Rightarrow> pystr" where
  "failed_response to_number err =
     text_lines [
       lit ''## SMS Failed '' @ [0x274C],
       [],
       lit ''**To:** '' @ to_number,
       lit ''**Error:** '' @ err,
       [],
       lit ''Please check:'',
       lit ''1. Phone number format (should be +1XXXXXXXXXX)'',
       lit ''2. Twilio credentials are valid'',
       lit ''3. Twilio account has sufficient balance'']"

definition sms_response :: "sms_result \<Rightarrow> pystr" where
  "sms_response result =
     (case result of
        Sms_Sent message_sid to_number body timestamp \<Rightarrow>
          sent_response (lit ''Live'') to_number message_sid timestamp body None
      | Sms_Simulated r \<Rightarrow>
          sent_response (lit ''Demo'') (sms_to r) (sms_message_sid r) (sms_timestamp r) (sms_body r)
            (Some (sms_note r))
      | Sms_Error err to_number \<Rightarrow> failed_response to_number err)"

definition message_entry :: "nat \<times> sms_record \<Rightarrow> pystr" where
  "message_entry im =
     (case im of (i, msg) \<Rightarrow>
        text_lines [
          lit ''### Message '' @ str_nat i,
          lit ''- **To:** '' @ sms_to msg,
          lit ''- **Status:** '' @ sms_status msg,
          lit ''- **Time:** '' @ sms_timestamp msg,
          lit ''- **Content:** '' @ take 50 (sms_body msg)
             @ (if length (sms_body msg) > 50 then (lit ''...'') else []),
          []])"

text \<open>The \<open>for\<close> loop over \<open>enumerate(SENT_MESSAGES, 1)\<close>: the entries it appends.\<close>

definition message_entries :: "sms_record list \<Rightarrow> pystr" where
  "message_entries SENT_MESSAGES =
     concat (map message_entry (List.enumerate 1 SENT_MESSAGES))"

definition sent_messages_response :: "sms_record list \<Rightarrow> pystr" where
  "sent_messages_response SENT_MESSAGES =
     (if SENT_MESSAGES = [] then
        lit ''## Sent Messages'' @ nl @ nl @ lit ''No messages have been sent in this session.''
      else
        lit ''## Sent Messages ('' @ str_nat (length SENT_MESSAGES) @ lit '' total)'' @ nl @ nl
          @ message_entries SENT_MESSAGES)"

text \<open>
  \<open>call_tool\<close> of the action server, with \<open>SENT_MESSAGES\<close> passed in and returned.
\<close>

definition action_call_tool ::
  "twilio_config \<Rightarrow> twilio_client \<Rightarrow> clock \<Rightarrow> pystr \<Rightarrow> (pystr \<rightharpoonup> pystr)
     \<Rightarrow> sms_record list \<Rightarrow> outcome \<times> sms_record list" where
  "action_call_tool cfg client clk name arguments SENT_MESSAGES =
     (if name = lit ''send_sms_notification'' then
        let phone_number = get_arg arguments (lit ''phone_number'') [];
            message_body = get_arg arguments (lit ''message_body'') []
        in if phone_number = [] then
             (\<lparr>report = lit ''## Error'' @ nl @ nl @ lit ''**Error:** Phone number is required'',
               invoked = []\<rparr>, SENT_MESSAGES)
           else if message_body = [] then
             (\<lparr>report = lit ''## Error'' @ nl @ nl @ lit ''**Error:** Message body is required'',
               invoked = []\<rparr>, SENT_MESSAGES)
           else if TWILIO_ACCOUNT_SID cfg \<noteq> [] \<and> TWILIO_AUTH_TOKEN cfg \<noteq> [] then
             (let result = send_sms_real cfg client clk phone_number message_body
              in (\<lparr>report = sms_response result,
                   invoked = [Sms_Real phone_number message_body]\<rparr>, SENT_MESSAGES))
           else
             (case send_sms_mock clk phone_number message_body SENT_MESSAGES of
                (result, SENT_MESSAGES') \<Rightarrow>
                  (\<lparr>report = sms_response (Sms_Simulated result),
                    invoked = [Sms_Mock phone_number message_body]\<rparr>, SENT_MESSAGES'))
      else if name = lit ''get_sent_messages'' then
        (\<lparr>report = sent_messages_response SENT_MESSAGES, invoked = []\<rparr>, SENT_MESSAGES)
      else
        (\<lparr>report = lit ''Unknown tool: '' @ name, invoked = []\<rparr>, SENT_MESSAGES))"

section \<open>data\_mcp\_server.py\<close>

text \<open>
  The module constants read from the environment when the module is loaded, and
  the two further variables that \<open>lookup_patient_details_real\<close> reads when it
  connects.
\<close>

record data_config =
  DATABRICKS_HOST :: pystr
  DATABRICKS_TOKEN :: pystr
  DATABRICKS_WAREHOUSE :: pystr
  DATABRICKS_HTTP_PATH :: pystr
  FIREMETRICS_API_KEY :: pystr
  FIREMETRICS_DB_HOST :: pystr
  FIREMETRICS_DB_USER :: pystr
  FIREMETRICS_DB_PASSWORD :: pystr

text \<open>
  A value in a row: \<open>None\<close>, an int, a str, or any other object, kept as the text
  \<open>str\<close> gives for it.
\<close>

datatype pyval = PNone | PInt int | PStr pystr | PObj pystr

fun str_val :: "pyval \<Rightarrow> pystr" where
  "str_val PNone = lit ''None''"
| "str_val (PInt i) = str_int i"
| "str_val (PStr s) = s"
| "str_val (PObj s) = s"

text \<open>
  An entry of \<open>MOCK_PATIENTS\<close>. The key \<open>last_hba1c_value\<close> (a float, in four of
  the five entries) is read by no function and is left out.
\<close>

record patient =
  PatientID :: pystr
  patient_name :: pystr
  RiskScore :: int
  GapStatus :: pystr
  last_hba1c_date :: "pystr option"
  glycemic_control :: pystr
  days_overdue :: int
  phone_number :: pystr
  preferred_name :: pystr
  preferred_language :: pystr
  best_contact_time :: pystr

definition MOCK_PATIENTS :: "patient list" where
  "MOCK_PATIENTS =
     [\<lparr>PatientID = lit ''patient-001'', patient_name = lit ''Maria Garcia'', RiskScore = 95,
       GapStatus = lit ''CRITICAL'', last_hba1c_date = None, glycemic_control = lit ''UNKNOWN'',
       days_overdue = 365, phone_number = lit ''+19176649186'', preferred_name = lit ''Maria'',
       preferred_language = lit ''Spanish'', best_contact_time = lit ''Evening''\<rparr>,
      \<lparr>PatientID = lit ''patient-002'', patient_name = lit ''James Wilson'', RiskScore = 88,
       GapStatus = lit ''HIGH'', last_hba1c_date = Some (lit ''2024-03-15''),
       glycemic_control = lit ''UNCONTROLLED'',
       days_overdue = 260, phone_number = lit ''+15559876543'', preferred_name = lit ''Jim'',
       preferred_language = lit ''English'', best_contact_time = lit ''Morning''\<rparr>,
      \<lparr>PatientID = lit ''patient-003'', patient_name = lit ''Sarah Johnson'', RiskScore = 72,
       GapStatus = lit ''MODERATE'', last_hba1c_date = Some (lit ''2024-06-20''),
       glycemic_control = lit ''ABOVE_TARGET'',
       days_overdue = 163, phone_number = lit ''+15551112222'', preferred_name = lit ''Sarah'',
       preferred_language = lit ''English'', best_contact_time = lit ''Afternoon''\<rparr>,
      \<lparr>PatientID = lit ''patient-004'', patient_name = lit ''Robert Chen'', RiskScore = 65,
       GapStatus = lit ''MODERATE'', last_hba1c_date = Some (lit ''2024-07-10''),
       glycemic_control = lit ''ABOVE_TARGET'',
       days_overdue = 143, phone_number = lit ''+15553334444'', preferred_name = lit ''Bob'',
       preferred_language = lit ''English'', best_contact_time = lit ''Morning''\<rparr>,
      \<lparr>PatientID = lit ''patient-005'', patient_name = lit ''Linda Martinez'', RiskScore = 55,
       GapStatus = lit ''MODERATE'', last_hba1c_date = Some (lit ''2024-08-01''),
       glycemic_control = lit ''ABOVE_TARGET'',
       days_overdue = 121, phone_number = lit ''+15555556666'', preferred_name = lit ''Linda'',
       preferred_language = lit ''Spanish'', best_contact_time = lit ''Evening''\<rparr>]"

text \<open>\<open>{p["PatientID"]: p for p in MOCK_PATIENTS}\<close>: a later entry overwrites an earlier one.\<close>

definition PATIENT_DETAILS :: "pystr \<rightharpoonup> patient" where
  "PATIENT_DETAILS = fold (\<lambda>p m. m(PatientID p \<mapsto> p)) MOCK_PATIENTS Map.empty"

text \<open>
  A row of a result is a dict from column names to values; \<open>dict(zip(columns, row))\<close>
  keeps the last value of a repeated column name.
\<close>

type_synonym row = "pystr \<rightharpoonup> pyval"

definition dict_zip :: "pystr list \<Rightarrow> pyval list \<Rightarrow> row" where
  "dict_zip cols vals = fold (\<lambda>kv m. m(fst kv \<mapsto> snd kv)) (zip cols vals) Map.empty"

text \<open>
  What a query returns: a dict with \<open>"status": "success"\<close> (here \<open>Query_Success\<close>,
  with the other keys as fields, an absent key being \<open>None\<close>) or with
  \<open>"status": "error"\<close> and the error text.
\<close>

record query_rows =
  q_source :: "pystr option"
  q_note :: "pystr option"
  q_row_count :: nat
  q_columns :: "pystr list"
  q_data :: "row list"
  q_message :: "pystr option"

datatype query_result = Query_Success query_rows | Query_Error pystr

text \<open>
  The Databricks connection, outside the program: host, HTTP path, access token and
  query give \<open>cursor.description\<close> (\<open>None\<close> when the statement has no result set;
  else the column names, \<open>desc[0]\<close> of each entry) and the rows of \<open>fetchall()\<close>, or
  an exception is raised inside the \<open>try\<close> block (\<open>Inl\<close>, with the text of \<open>str(e)\<close>).
\<close>

type_synonym databricks_client =
  "pystr \<Rightarrow> pystr \<Rightarrow> pystr \<Rightarrow> pystr \<Rightarrow> pystr + (pystr list option \<times> pyval list list)"

definition execute_databricks_sql_real ::
  "data_config \<Rightarrow> databricks_client \<Rightarrow> pystr \<Rightarrow> query_result" where
  "execute_databricks_sql_real cfg client sql_query =
     (case client (DATABRICKS_HOST cfg) (DATABRICKS_HTTP_PATH cfg) (DATABRICKS_TOKEN cfg)
             sql_query of
        Inl e \<Rightarrow> Query_Error e
      | Inr (None, rows) \<Rightarrow> Query_Error (lit (sq @ ''NoneType'' @ sq @ '' object is not iterable''))
      | Inr (Some columns, rows) \<Rightarrow>
          Query_Success
            \<lparr>q_source = None, q_note = None, q_row_count = length rows,
             q_columns = columns, q_data = map (dict_zip columns) rows,
             q_message = None\<rparr>)"

definition mock_row :: "patient \<Rightarrow> row" where
  "mock_row p =
     [lit ''PatientID'' \<mapsto> PStr (PatientID p),
      lit ''patient_name'' \<mapsto> PStr (patient_name p),
      lit ''RiskScore'' \<mapsto> PInt (RiskScore p),
      lit ''GapStatus'' \<mapsto> PStr (GapStatus p),
      lit ''last_hba1c_date'' \<mapsto> (case last_hba1c_date p of None \<Rightarrow> PNone | Some d \<Rightarrow> PStr d),
      lit ''days_overdue'' \<mapsto> PInt (days_overdue p),
      lit ''glycemic_control'' \<mapsto> PStr (glycemic_control p)]"

definition execute_databricks_sql_mock :: "lower_fn \<Rightarrow> pystr \<Rightarrow> query_result" where
  "execute_databricks_sql_mock str_lower sql_query =
     (let sql_lower = str_lower sql_query
      in if contains (lit ''patient'') sql_lower \<or> contains (lit ''risk'') sql_lower
            \<or> contains (lit ''gap'') sql_lower
         then Query_Success
            \<lparr>q_source = Some (lit ''mock_data''),
             q_note = Some (lit ''Using mock data - set DATABRICKS_* env vars for real connection''),
             q_row_count = length MOCK_PATIENTS,
             q_columns = [lit ''PatientID'', lit ''patient_name'', lit ''RiskScore'', lit ''GapStatus'',
                          lit ''last_hba1c_date'', lit ''days_overdue'', lit ''glycemic_control''],
             q_data = map mock_row MOCK_PATIENTS,
             q_message = None\<rparr>
         else Query_Success
            \<lparr>q_source = Some (lit ''mock_data''),
             q_note = None,
             q_row_count = 0,
             q_columns = [],
             q_data = [],
             q_message = Some (lit ''Query executed (mock mode - no matching data)'')\<rparr>)"

text \<open>
  What a lookup returns: \<open>None\<close>, a dict with the key \<open>"error"\<close>, or a dict of
  details (\<open>best_contact_time\<close> and \<open>source\<close> only from the mock).
\<close>

record details =
  d_patient_id :: pyval
  d_preferred_name :: pyval
  d_phone_number :: pyval
  d_preferred_language :: pyval
  d_best_contact_time :: "pyval option"
  d_source :: "pystr option"

datatype lookup_dict = Lookup_Details details | Lookup_Error pystr

text \<open>
  The Firemetrics database, outside the program: host, user, password and patient id
  give the row of \<open>fetchone()\<close> (its four columns) or \<open>None\<close>, or an exception is
  raised inside the \<open>try\<close> block (\<open>Inl\<close>, with the text of \<open>str(e)\<close>).
\<close>

type_synonym firemetrics_client =
  "pystr \<Rightarrow> pystr \<Rightarrow> pystr \<Rightarrow> pystr
     \<Rightarrow> pystr + (pyval \<times> pyval \<times> pyval \<times> pyval) option"

definition lookup_patient_details_real ::
  "data_config \<Rightarrow> firemetrics_client \<Rightarrow> pystr \<Rightarrow> lookup_dict option" where
  "lookup_patient_details_real cfg client patient_id =
     (case client (FIREMETRICS_DB_HOST cfg) (FIREMETRICS_DB_USER cfg)
             (FIREMETRICS_DB_PASSWORD cfg) patient_id of
        Inl e \<Rightarrow> Some (Lookup_Error e)
      | Inr None \<Rightarrow> None
      | Inr (Some (c0, c1, c2, c3)) \<Rightarrow>
          Some (Lookup_Details
            \<lparr>d_patient_id = c0, d_preferred_name = c1, d_phone_number = c2,
             d_preferred_language = c3, d_best_contact_time = None, d_source = None\<rparr>))"

definition lookup_patient_details_mock :: "pystr \<Rightarrow> lookup_dict option" where
  "lookup_patient_details_mock patient_id =
     (case PATIENT_DETAILS patient_id of
        Some p \<Rightarrow>
          Some (Lookup_Details
            \<lparr>d_patient_id = PStr (PatientID p),
             d_preferred_name = PStr (preferred_name p),
             d_phone_number = PStr (phone_number p),
             d_preferred_language = PStr (preferred_language p),
             d_best_contact_time = Some (PStr (best_contact_time p)),
             d_source = Some (lit ''mock_data'')\<rparr>)
      | None \<Rightarrow> None)"

definition data_list_tools :: "tool list" where
  "data_list_tools =
     [\<lparr>t_name = lit ''execute_databricks_sql'',
       t_properties =
         [\<lparr>p_name = lit ''sql_query'', p_type = lit ''string'', p_enum = None, p_default = None\<rparr>],
       t_required = [lit ''sql_query'']\<rparr>,
      \<lparr>t_name = lit ''lookup_patient_details'',
       t_properties =
         [\<lparr>p_name = lit ''patient_id'', p_type = lit ''string'', p_enum = None, p_default = None\<rparr>],
       t_required = [lit ''patient_id'']\<rparr>]"

text \<open>The reports of \<open>call_tool\<close>.\<close>

definition table_line :: "pystr list \<Rightarrow> pystr" where
  "table_line cells = lit ''| '' @ join (lit '' | '') cells @ lit '' |'' @ nl"

definition row_line :: "pystr list \<Rightarrow> row \<Rightarrow> pystr" where
  "row_line columns r =
     table_line (map (\<lambda>col. case r col of Some v \<Rightarrow> str_val v | None \<Rightarrow> []) columns)"

definition query_response :: "query_result \<Rightarrow> pystr" where
  "query_response result =
     (case result of
        Query_Success r \<Rightarrow>
          (let response = text_lines [
                 lit ''## Databricks Query Results'',
                 [],
                 lit ''**Status:** Success'',
                 lit ''**Rows Returned:** '' @ str_nat (q_row_count r)];
               response =
                 (if q_source r = Some (lit ''mock_data'')
                  then response @ lit ''**Mode:** Demo (mock data)'' @ nl
                  else response);
               response =
                 (if q_data r \<noteq> [] then
                    response @ nl @ lit ''### Results:'' @ nl @ nl
                      @ table_line (q_columns r)
                      @ table_line (replicate (length (q_columns r)) (lit ''---''))
                      @ concat (map (row_line (q_columns r)) (take 10 (q_data r)))
                      @ (if q_row_count r > 10
                         then nl @ lit ''*...and '' @ str_nat (q_row_count r - 10)
                                @ lit '' more rows*'' @ nl
                         else [])
                  else response)
           in response)
      | Query_Error e \<Rightarrow> (lit ''## Query Error'') @ nl @ nl @ lit ''**Error:** '' @ e)"

definition lookup_response :: "pystr \<Rightarrow> lookup_dict option \<Rightarrow> pystr" where
  "lookup_response patient_id result =
     (case result of
        Some (Lookup_Error e) \<Rightarrow> (lit ''## Lookup Error'') @ nl @ nl @ lit ''**Error:** '' @ e
      | Some (Lookup_Details d) \<Rightarrow>
          (let response = text_lines [
                 lit ''## Patient Details (Firemetrics)'',
                 [],
                 lit ''**Patient ID:** '' @ str_val (d_patient_id d),
                 lit ''**Preferred Name:** '' @ str_val (d_preferred_name d),
                 lit ''**Phone Number:** '' @ str_val (d_phone_number d),
                 lit ''**Preferred Language:** '' @ str_val (d_preferred_language d),
                 lit ''**Best Contact Time:** ''
                   @ (case d_best_contact_time d of Some v \<Rightarrow> str_val v
                      | None \<Rightarrow> (lit ''Any time''))]
           in if d_source d = Some (lit ''mock_data'')
              then response @ nl
                @ lit ''*Using demo data - set FIREMETRICS_* env vars for real connection*''
              else response)
      | None \<Rightarrow>
          (lit ''## Patient Not Found'') @ nl @ nl @ lit ''No patient found with ID: '' @ patient_id)"

definition data_call_tool ::
  "lower_fn \<Rightarrow> data_config \<Rightarrow> databricks_client \<Rightarrow> firemetrics_client \<Rightarrow> pystr
     \<Rightarrow> (pystr \<rightharpoonup> pystr) \<Rightarrow> outcome" where
  "data_call_tool str_lower cfg databricks firemetrics name arguments =
     (if name = lit ''execute_databricks_sql'' then
        let sql_query = get_arg arguments (lit ''sql_query'') []
        in if DATABRICKS_HOST cfg \<noteq> [] \<and> DATABRICKS_TOKEN cfg \<noteq> [] then
             \<lparr>report = query_response (execute_databricks_sql_real cfg databricks sql_query),
              invoked = [Sql_Real sql_query]\<rparr>
           else
             \<lparr>report = query_response (execute_databricks_sql_mock str_lower sql_query),
              invoked = [Sql_Mock sql_query]\<rparr>
      else if name = lit ''lookup_patient_details'' then
        let patient_id = get_arg arguments (lit ''patient_id'') []
        in if FIREMETRICS_DB_HOST cfg \<noteq> [] then
             \<lparr>report = lookup_response patient_id
                         (lookup_patient_details_real cfg firemetrics patient_id),
              invoked = [Lookup_Real patient_id]\<rparr>
           else
             \<lparr>report = lookup_response patient_id (lookup_patient_details_mock patient_id),
              invoked = [Lookup_Mock patient_id]\<rparr>
      else
        \<lparr>report = lit ''Unknown tool: '' @ name, invoked = []\<rparr>)"


section \<open>Input validation in front of call\_tool\<close>

text \<open>
  Modelled from the spec: the two errors of the Input Validator (section 4.2). In the
  repository each \<open>call_tool\<close> is handed to the \<open>mcp\<close> library by
  \<open>@server.call_tool()\<close>, and it is the library, which is not under src/, that checks
  the arguments of a call against the \<open>inputSchema\<close> of the tool before \<open>call_tool\<close>
  runs.
\<close>

datatype validation_error =
    MissingParameter pystr
  | InvalidValue pystr pystr "pystr list"

text \<open>
  Modelled from the spec: the checks of section 4.2, run in declared parameter order
  and stopping at the first error. A required parameter that is absent from the
  arguments fails with \<open>MissingParameter\<close>; a value outside the allowed values of
  its parameter fails with \<open>InvalidValue\<close>; arguments that the tool does not declare
  are permitted and ignored.
\<close>

fun validate_properties ::
  "property list \<Rightarrow> pystr list \<Rightarrow> (pystr \<rightharpoonup> pystr) \<Rightarrow> validation_error option" where
  "validate_properties [] required arguments = None"
| "validate_properties (p # ps) required arguments =
     (case arguments (p_name p) of
        None \<Rightarrow>
          if p_name p \<in> set required then Some (MissingParameter (p_name p))
          else validate_properties ps required arguments
      | Some v \<Rightarrow>
          (case p_enum p of
             Some allowed \<Rightarrow>
               if v \<in> set allowed then validate_properties ps required arguments
               else Some (InvalidValue (p_name p) v allowed)
           | None \<Rightarrow> validate_properties ps required arguments))"

text \<open>
  Modelled from the spec: \<open>validate(tool, arguments)\<close> of section 4.2, \<open>None\<close> when
  the arguments are valid.
\<close>

definition validate :: "tool \<Rightarrow> (pystr \<rightharpoonup> pystr) \<Rightarrow> validation_error option" where
  "validate t arguments = validate_properties (t_properties t) (t_required t) arguments"

text \<open>
  Modelled from the spec: the first steps of the Server Loop (section 4.6), the lookup
  of the name in the registry and the validation of the arguments. A name that is
  not in the registry has no schema to check: the call goes on to \<open>call_tool\<close>, whose
  last branch answers it.
\<close>

definition check_call ::
  "tool list \<Rightarrow> pystr \<Rightarrow> (pystr \<rightharpoonup> pystr) \<Rightarrow> validation_error option" where
  "check_call registry name arguments =
     (case find (\<lambda>t. t_name t = name) registry of
        None \<Rightarrow> None
      | Some t \<Rightarrow> validate t arguments)"

text \<open>
  Modelled from the spec: a call as the three servers receive it ("validation
  failure is returned, loop returns to Idle", else the call is dispatched): \<open>Inl\<close> is
  the validation failure, returned without running \<open>call_tool\<close>, and \<open>Inr\<close> is what
  \<open>call_tool\<close> returns.
\<close>

definition cql_serve ::
  "lower_fn \<Rightarrow> pystr \<Rightarrow> (pystr \<rightharpoonup> pystr) \<Rightarrow> validation_error + outcome" where
  "cql_serve str_lower name arguments =
     (case check_call cql_list_tools name arguments of
        Some e \<Rightarrow> Inl e
      | None \<Rightarrow> Inr (cql_call_tool str_lower name arguments))"

definition data_serve ::
  "lower_fn \<Rightarrow> data_config \<Rightarrow> databricks_client \<Rightarrow> firemetrics_client \<Rightarrow> pystr
     \<Rightarrow> (pystr \<rightharpoonup> pystr) \<Rightarrow> validation_error + outcome" where
  "data_serve str_lower cfg databricks firemetrics name arguments =
     (case check_call data_list_tools name arguments of
        Some e \<Rightarrow> Inl e
      | None \<Rightarrow> Inr (data_call_tool str_lower cfg databricks firemetrics name arguments))"

definition action_serve ::
  "twilio_config \<Rightarrow> twilio_client \<Rightarrow> clock \<Rightarrow> pystr \<Rightarrow> (pystr \<rightharpoonup> pystr)
     \<Rightarrow> sms_record list \<Rightarrow> (validation_error + outcome) \<times> sms_record list" where
  "action_serve cfg client clk name arguments SENT_MESSAGES =
     (case check_call action_list_tools name arguments of
        Some e \<Rightarrow> (Inl e, SENT_MESSAGES)
      | None \<Rightarrow>
          (case action_call_tool cfg client clk name arguments SENT_MESSAGES of
             (out, SENT_MESSAGES') \<Rightarrow> (Inr out, SENT_MESSAGES')))"

text \<open>
  Modelled from the spec: a validation failure is returned without dispatch (section
  4.6), so a call that failed validation ran no adapter; a dispatched call ran those
  of \<open>call_tool\<close>.
\<close>

definition adapters_run :: "validation_error + outcome \<Rightarrow> adapter_call list" where
  "adapters_run r = (case r of Inl e \<Rightarrow> [] | Inr out \<Rightarrow> invoked out)"

section \<open>Auxiliary definitions for the statements\<close>

text \<open>
  The first lines of the generic template once stripped, up to the opening of its
  query: they carry the dialect and the first 200 characters of the source text.
\<close>

definition generic_header :: "pystr \<Rightarrow> pystr \<Rightarrow> pystr" where
  "generic_header cql_logic target_dialect =
     lit ''-- Spark SQL: Generated from CQL expression'' @ nl
     @ lit ''-- Target dialect: '' @ target_dialect @ nl
     @ lit ''--'' @ nl
     @ lit ''-- Original CQL:'' @ nl
     @ lit ''-- '' @ take 200 cql_logic @ (if length cql_logic > 200 then lit ''...'' else []) @ nl
     @ nl
     @ lit ''WITH patient_cohort AS (''"

text \<open>
  A process lifetime of the action server: the calls it serves one after the other,
  each with its own clock readings and its own answers of the Twilio service, and
  the \<open>SENT_MESSAGES\<close> left at the end.
\<close>

definition action_session ::
  "twilio_config \<Rightarrow> (twilio_client \<times> clock \<times> pystr \<times> (pystr \<rightharpoonup> pystr)) list
     \<Rightarrow> sms_record list \<Rightarrow> sms_record list" where
  "action_session cfg calls SENT_MESSAGES =
     fold (\<lambda>c S. case c of (client, clk, name, arguments) \<Rightarrow>
             snd (action_call_tool cfg client clk name arguments S)) calls SENT_MESSAGES"

text \<open>
  Concrete surroundings for the closed examples. The characters of their texts are
  ASCII and U+212A KELVIN SIGN, and on these \<open>str.lower()\<close> maps \<open>A\<close>..\<open>Z\<close> to
  \<open>a\<close>..\<open>z\<close>, the Kelvin sign to \<open>k\<close>, and nothing else: \<open>example_lower\<close>.
\<close>

definition example_lower :: lower_fn where
  "example_lower s =
     map (\<lambda>c. if 65 \<le> c \<and> c \<le> 90 then c + 32 else if c = 0x212A then 0x6B else c) s"

definition twilio_accepting :: twilio_client where
  "twilio_accepting account_sid auth_token body from_number to_number = Inr (lit ''SM0001'')"

definition databricks_unreachable :: databricks_client where
  "databricks_unreachable host http_path token query = Inl (lit ''connection refused'')"

definition firemetrics_unreachable :: firemetrics_client where
  "firemetrics_unreachable host user password patient_id = Inl (lit ''connection refused'')"

definition noon :: clock where
  "noon = \<lparr>now_compact = lit ''20240101120000'', now_iso = lit ''2024-01-01T12:00:00''\<rparr>"

definition no_twilio :: twilio_config where
  "no_twilio = \<lparr>TWILIO_ACCOUNT_SID = [], TWILIO_AUTH_TOKEN = [], TWILIO_FROM_NUMBER = []\<rparr>"

definition twilio_without_from :: twilio_config where
  "twilio_without_from =
     \<lparr>TWILIO_ACCOUNT_SID = lit ''AC0001'', TWILIO_AUTH_TOKEN = lit ''secret'',
      TWILIO_FROM_NUMBER = []\<rparr>"

definition no_data_config :: data_config where
  "no_data_config =
     \<lparr>DATABRICKS_HOST = [], DATABRICKS_TOKEN = [], DATABRICKS_WAREHOUSE = [],
      DATABRICKS_HTTP_PATH = [], FIREMETRICS_API_KEY = [], FIREMETRICS_DB_HOST = [],
      FIREMETRICS_DB_USER = [], FIREMETRICS_DB_PASSWORD = []\<rparr>"

definition partial_data_config :: data_config where
  "partial_data_config =
     \<lparr>DATABRICKS_HOST = lit ''dbc.example.com'', DATABRICKS_TOKEN = lit ''secret'',
      DATABRICKS_WAREHOUSE = [], DATABRICKS_HTTP_PATH = [],
      FIREMETRICS_API_KEY = [], FIREMETRICS_DB_HOST = lit ''db.example.com'',
      FIREMETRICS_DB_USER = [], FIREMETRICS_DB_PASSWORD = []\<rparr>"

section \<open>Facts about the string functions\<close>

lemma lit_eq_iff [simp]: "lit a = lit b \<longleftrightarrow> a = b"
  by (simp add: lit_def inj_map_eq_map inj_on_def)

lemma lit_Nil [simp]: "lit [] = []"
  by (simp add: lit_def)

lemma lit_Nil_iff [simp]: "lit a = [] \<longleftrightarrow> a = []"
  by (simp add: lit_def)

lemma lit_append: "lit (a @ b) = lit a @ lit b"
  by (simp add: lit_def)

lemma lit_join [simp]: "lit a @ lit b = lit (a @ b)" "lit a @ lit b @ z = lit (a @ b) @ z"
  by (simp_all add: lit_def)

lemma contains_sublist: "contains sub s = sublist sub s"
  by (induction s) (auto simp: sublist_Cons_right)

lemma contains_middle: "contains sub (ps @ sub @ ss)"
  by (simp add: contains_sublist)

lemma contains_appendL: "contains sub a \<Longrightarrow> contains sub (a @ b)"
  unfolding contains_sublist by (metis sublist_append)

lemma contains_appendR: "contains sub b \<Longrightarrow> contains sub (a @ b)"
  unfolding contains_sublist by (metis sublist_append)

lemma text_lines_Cons: "text_lines (l # ls) = l @ nl @ text_lines ls"
  by (simp add: text_lines_def)

lemma contains_text_lines:
  "l \<in> set ls \<Longrightarrow> contains sub l \<Longrightarrow> contains sub (text_lines ls)"
proof (induction ls)
  case Nil
  then show ?case by simp
next
  case (Cons a ls)
  show ?case
  proof (cases "l = a")
    case True
    with Cons.prems show ?thesis
      by (simp add: text_lines_Cons contains_appendL)
  next
    case False
    with Cons have "contains sub (text_lines ls)" by simp
    then show ?thesis
      by (simp add: text_lines_Cons contains_appendR)
  qed
qed

lemma strip_Nil_iff: "strip s = [] \<longleftrightarrow> (\<forall>c\<in>set s. isspace c)"
proof -
  have "strip s = [] \<longleftrightarrow> (\<forall>c\<in>set (dropWhile isspace s). isspace c)"
    by (simp add: strip_def rstrip_def lstrip_def dropWhile_eq_Nil_conv)
  also have "\<dots> \<longleftrightarrow> dropWhile isspace s = []"
  proof
    assume a: "\<forall>c\<in>set (dropWhile isspace s). isspace c"
    show "dropWhile isspace s = []"
    proof (rule ccontr)
      assume n: "dropWhile isspace s \<noteq> []"
      then have "\<not> isspace (hd (dropWhile isspace s))" by (rule hd_dropWhile)
      moreover from n have "hd (dropWhile isspace s) \<in> set (dropWhile isspace s)" by simp
      ultimately show False using a by blast
    qed
  next
    assume "dropWhile isspace s = []"
    then show "\<forall>c\<in>set (dropWhile isspace s). isspace c"
      by (metis empty_iff empty_set)
  qed
  also have "\<dots> \<longleftrightarrow> (\<forall>c\<in>set s. isspace c)"
    by (simp add: dropWhile_eq_Nil_conv)
  finally show ?thesis .
qed

lemma rstrip_keeps_prefix:
  assumes "a \<noteq> []" and "\<not> isspace (last a)"
  shows "prefix a (rstrip (a @ b))"
proof (cases "\<forall>c\<in>set (rev b). isspace c")
  case True
  from assms have "dropWhile isspace (rev a) = rev a"
    by (cases a rule: rev_cases) auto
  with True have "rstrip (a @ b) = a"
    by (simp add: rstrip_def dropWhile_append)
  then show ?thesis by simp
next
  case False
  then have "rstrip (a @ b) = a @ rev (dropWhile isspace (rev b))"
    by (auto simp add: rstrip_def dropWhile_append)
  then show ?thesis by simp
qed

lemma strip_keeps_prefix:
  assumes "a \<noteq> []" and "\<not> isspace (hd a)" and "\<not> isspace (last a)"
  shows "prefix a (strip (nl @ a @ b))"
proof -
  from assms(1,2) have "dropWhile isspace (a @ b) = a @ b"
    by (cases a) auto
  then have "lstrip (nl @ a @ b) = a @ b"
    by (simp add: lstrip_def nl_def isspace_def)
  then show ?thesis
    using rstrip_keeps_prefix [OF assms(1,3)] by (simp add: strip_def)
qed

lemma strip_first_line:
  assumes "l \<noteq> []" and "\<not> isspace (hd l)" and "\<not> isspace (last l)"
  shows "prefix l (strip (nl @ text_lines (l # ls)))"
  using strip_keeps_prefix [OF assms] by (simp add: text_lines_Cons)

section \<open>validate\_cql\<close>

text \<open>
  C10. For every input string, \<open>validate_cql\<close> returns \<open>valid = False\<close> exactly when
  the string is empty or consists of whitespace only (every character is one that
  \<open>str.strip()\<close> removes), and then the dict is
  \<open>{valid: False, errors: ["CQL expression cannot be empty"]}\<close>. For every other
  input it returns \<open>valid = True\<close> with the fixed message and no errors; a missing
  \<open>define\<close> or \<open>library\<close> (searched in the lower-cased input) only adds its warning,
  in this order, and \<open>warnings\<close> is \<open>None\<close> when there is none.
\<close>

theorem validate_cql_valid_iff:
  "(valid (validate_cql str_lower s) \<longleftrightarrow> \<not> (\<forall>c\<in>set s. isspace c))
   \<and> (\<not> valid (validate_cql str_lower s) \<longrightarrow>
        validate_cql str_lower s
          = \<lparr>valid = False, errors = Some [lit ''CQL expression cannot be empty''],
             warnings = None, message = None\<rparr>)
   \<and> (valid (validate_cql str_lower s) \<longrightarrow>
        errors (validate_cql str_lower s) = None
        \<and> message (validate_cql str_lower s) = Some (lit ''CQL expression is syntactically valid'')
        \<and> warnings (validate_cql str_lower s) =
            (let ws = (if contains (lit ''define'') (str_lower s) then []
                       else [lit ''Consider using 'define' statements for reusable expressions''])
                    @ (if contains (lit ''library'') (str_lower s) then []
                       else [lit ''Missing library declaration - recommended for production CQL''])
             in if ws = [] then None else Some ws))"
proof -
  have e: "(s = [] \<or> strip s = []) \<longleftrightarrow> (\<forall>c\<in>set s. isspace c)"
    using strip_Nil_iff [of s] by auto
  show ?thesis
    unfolding validate_cql_def e by (simp add: Let_def)
qed

theorem validate_cql_valid_iff_witness:
  "isspace 0x20 \<and> isspace 0x09 \<and> isspace 0xA0 \<and> isspace 0x2003
   \<and> \<not> valid (validate_cql example_lower [0x20, 0x09, 0xA0, 0x2003])
   \<and> validate_cql example_lower [0x20, 0x09, 0xA0, 0x2003]
        = \<lparr>valid = False, errors = Some [lit ''CQL expression cannot be empty''],
           warnings = None, message = None\<rparr>
   \<and> \<not> isspace (of_char (CHR ''x''))
   \<and> valid (validate_cql example_lower (lit ''x''))
   \<and> warnings (validate_cql example_lower (lit ''x''))
        = Some [lit ''Consider using 'define' statements for reusable expressions'',
                lit ''Missing library declaration - recommended for production CQL'']"
proof -
  have sp: "isspace 0x20" "isspace 0x09" "isspace 0xA0" "isspace 0x2003"
    "\<not> isspace (of_char (CHR ''x''))"
    by (simp_all add: isspace_def)
  have a: "\<forall>c\<in>set [0x20, 0x09, 0xA0, 0x2003]. isspace c"
    using sp by simp
  have b: "\<not> (\<forall>c\<in>set (lit ''x''). isspace c)"
    using sp by (simp add: lit_def)
  have k: "\<not> contains (lit ''define'') (example_lower (lit ''x''))"
    "\<not> contains (lit ''library'') (example_lower (lit ''x''))"
    by (simp_all add: example_lower_def lit_def)
  note v1 = validate_cql_valid_iff [of example_lower "[0x20, 0x09, 0xA0, 0x2003]"]
  note v2 = validate_cql_valid_iff [of example_lower "lit ''x''"]
  have c: "\<not> valid (validate_cql example_lower [0x20, 0x09, 0xA0, 0x2003])"
    using v1 a by blast
  have d: "validate_cql example_lower [0x20, 0x09, 0xA0, 0x2003]
        = \<lparr>valid = False, errors = Some [lit ''CQL expression cannot be empty''],
           warnings = None, message = None\<rparr>"
    using v1 c by blast
  have e: "valid (validate_cql example_lower (lit ''x''))"
    using v2 b by blast
  have f: "warnings (validate_cql example_lower (lit ''x''))
        = Some [lit ''Consider using 'define' statements for reusable expressions'',
                lit ''Missing library declaration - recommended for production CQL'']"
    using v2 e k by (simp add: Let_def)
  from sp c d e f show ?thesis by (intro conjI)
qed

section \<open>convert\_cql\_to\_sql\<close>

lemma strip_template_diabetes:
  "prefix (lit ''-- Spark SQL: Patients with Diabetes who haven't had HbA1c in 6 months'')
     (strip template_diabetes_hba1c_gap)"
  unfolding template_diabetes_hba1c_gap_def list.map
  by (rule strip_first_line) (simp_all add: isspace_def lit_def)

lemma strip_template_breast:
  "prefix (lit ''-- Spark SQL: CMS125 Breast Cancer Screening Measure'')
     (strip template_breast_cancer_screening)"
  unfolding template_breast_cancer_screening_def list.map
  by (rule strip_first_line) (simp_all add: isspace_def lit_def)

lemma strip_generic_template:
  "prefix (generic_header c d) (strip (generic_template c d))"
proof -
  have ne: "generic_header c d \<noteq> []"
    and h: "\<not> isspace (hd (generic_header c d))"
    and l: "\<not> isspace (last (generic_header c d))"
    by (simp_all add: generic_header_def isspace_def lit_def)
  have "\<exists>b. generic_template c d = nl @ generic_header c d @ b"
    unfolding generic_template_def generic_header_def
    by (simp only: list.map text_lines_Cons append_Cons append_assoc append_Nil lit_Nil) blast
  then obtain b where "generic_template c d = nl @ generic_header c d @ b" ..
  then show ?thesis
    using strip_keeps_prefix [OF ne h l, of b] by simp
qed

lemma contains_set: "contains sub s \<Longrightarrow> set sub \<subseteq> set s"
  unfolding contains_sublist by (rule set_mono_sublist)

lemma contains_filter_le:
  "contains sub s \<Longrightarrow> length (filter P sub) \<le> length (filter P s)"
  unfolding contains_sublist by (auto simp add: sublist_def)

lemma strip_filter_le: "length (filter P (strip s)) \<le> length (filter P s)"
proof -
  let ?t = "lstrip s"
  have "s = takeWhile isspace s @ ?t"
    by (simp add: lstrip_def)
  then have a: "length (filter P ?t) \<le> length (filter P s)"
    by (metis filter_append le_add2 length_append)
  have "rev ?t = takeWhile isspace (rev ?t) @ dropWhile isspace (rev ?t)"
    by simp
  then have "?t = rstrip ?t @ rev (takeWhile isspace (rev ?t))"
    by (metis rev_append rev_rev_ident rstrip_def)
  then have "length (filter P (rstrip ?t)) \<le> length (filter P ?t)"
    by (metis filter_append le_add1 length_append)
  with a show ?thesis
    by (simp add: strip_def)
qed

text \<open>
  C6 (as amended). \<open>convert_cql_to_sql\<close> dispatches on keywords of the lower-cased
  source text, first match first: any of \<open>diabetes\<close>, \<open>hba1c\<close>, \<open>a1c\<close> gives the
  (stripped) diabetes template, whatever else occurs; otherwise any of \<open>breast\<close>,
  \<open>mammog\<close>, \<open>cms125\<close> gives the breast cancer screening template; otherwise the
  generic template, which begins with the dialect and with the first 200 characters
  of the source text, followed by \<open>...\<close> when the text is longer: a longer text is not
  embedded whole.
\<close>

theorem convert_cql_to_sql_dispatch:
  "(let low = str_lower c;
        k1 = (contains (lit ''diabetes'') low \<or> contains (lit ''hba1c'') low
              \<or> contains (lit ''a1c'') low);
        k2 = (contains (lit ''breast'') low \<or> contains (lit ''mammog'') low
              \<or> contains (lit ''cms125'') low)
    in (k1 \<longrightarrow>
          convert_cql_to_sql str_lower c d = strip template_diabetes_hba1c_gap
          \<and> prefix (lit ''-- Spark SQL: Patients with Diabetes who haven't had HbA1c in 6 months'')
               (convert_cql_to_sql str_lower c d))
     \<and> (\<not> k1 \<and> k2 \<longrightarrow>
          convert_cql_to_sql str_lower c d = strip template_breast_cancer_screening
          \<and> prefix (lit ''-- Spark SQL: CMS125 Breast Cancer Screening Measure'')
               (convert_cql_to_sql str_lower c d))
     \<and> (\<not> k1 \<and> \<not> k2 \<longrightarrow>
          convert_cql_to_sql str_lower c d = strip (generic_template c d)
          \<and> prefix (generic_header c d) (convert_cql_to_sql str_lower c d)))"
  using strip_template_diabetes strip_template_breast strip_generic_template [of c d]
  by (simp add: convert_cql_to_sql_def Let_def)

theorem convert_cql_to_sql_dispatch_witness:
  "convert_cql_to_sql example_lower (lit ''Breast screening for Diabetes patients'') (lit ''snowflake'')
     = strip template_diabetes_hba1c_gap
   \<and> convert_cql_to_sql example_lower (lit ''define Mammography: true'') (lit ''snowflake'')
     = strip template_breast_cancer_screening
   \<and> prefix (generic_header (lit ''define X: 1'') (lit ''bigquery''))
       (convert_cql_to_sql example_lower (lit ''define X: 1'') (lit ''bigquery''))"
proof -
  have k1: "contains (lit ''diabetes'')
              (example_lower (lit ''Breast screening for Diabetes patients''))"
    by (simp add: example_lower_def lit_def)
  have k2: "\<not> contains (lit ''diabetes'') (example_lower (lit ''define Mammography: true''))"
    "\<not> contains (lit ''hba1c'') (example_lower (lit ''define Mammography: true''))"
    "\<not> contains (lit ''a1c'') (example_lower (lit ''define Mammography: true''))"
    "contains (lit ''mammog'') (example_lower (lit ''define Mammography: true''))"
    by (simp_all add: example_lower_def lit_def)
  have k3: "\<not> contains (lit ''diabetes'') (example_lower (lit ''define X: 1''))"
    "\<not> contains (lit ''hba1c'') (example_lower (lit ''define X: 1''))"
    "\<not> contains (lit ''a1c'') (example_lower (lit ''define X: 1''))"
    "\<not> contains (lit ''breast'') (example_lower (lit ''define X: 1''))"
    "\<not> contains (lit ''mammog'') (example_lower (lit ''define X: 1''))"
    "\<not> contains (lit ''cms125'') (example_lower (lit ''define X: 1''))"
    by (simp_all add: example_lower_def lit_def)
  have a: "convert_cql_to_sql example_lower (lit ''Breast screening for Diabetes patients'')
             (lit ''snowflake'') = strip template_diabetes_hba1c_gap"
    using convert_cql_to_sql_dispatch
            [of example_lower "lit ''Breast screening for Diabetes patients''" "lit ''snowflake''"] k1
    unfolding Let_def by blast
  have b: "convert_cql_to_sql example_lower (lit ''define Mammography: true'') (lit ''snowflake'')
             = strip template_breast_cancer_screening"
    using convert_cql_to_sql_dispatch
            [of example_lower "lit ''define Mammography: true''" "lit ''snowflake''"] k2
    unfolding Let_def by blast
  have c: "prefix (generic_header (lit ''define X: 1'') (lit ''bigquery''))
             (convert_cql_to_sql example_lower (lit ''define X: 1'') (lit ''bigquery''))"
    using convert_cql_to_sql_dispatch [of example_lower "lit ''define X: 1''" "lit ''bigquery''"] k3
    unfolding Let_def by blast
  from a b c show ?thesis by blast
qed

lemma filter_lit_z:
  "filter (\<lambda>x. x = 122) (lit s) = lit (filter (\<lambda>c. c = CHR ''z'') s)"
proof -
  have "of_char c = (122::nat) \<longleftrightarrow> c = CHR ''z''" for c
  proof -
    have "of_char (CHR ''z'') = (122::nat)" by simp
    then show ?thesis by (metis of_char_eq_iff)
  qed
  then show ?thesis
    by (induction s) (simp_all add: lit_def)
qed

lemma filter_text_lines:
  "filter P (text_lines ls) = concat (map (\<lambda>l. filter P l @ filter P nl) ls)"
  by (induction ls) (simp_all add: text_lines_def)

lemma generic_template_count_z:
  "length (filter (\<lambda>x. x = 122) (generic_template (replicate 201 122) (lit ''spark-sql'')))
     = 200"
  by (simp add: generic_template_def filter_text_lines filter_lit_z nl_def sq_def
        comp_def)

theorem convert_cql_to_sql_dispatch_counterexample:
  "\<not> contains (replicate 201 (122::nat))
       (convert_cql_to_sql example_lower (replicate 201 122) (lit ''spark-sql''))"
proof
  let ?c = "replicate 201 (122::nat)"
  let ?r = "convert_cql_to_sql example_lower ?c (lit ''spark-sql'')"
  assume "contains ?c ?r"
  then have "length (filter (\<lambda>x. x = 122) ?c) \<le> length (filter (\<lambda>x. x = 122) ?r)"
    by (rule contains_filter_le)
  then have big: "201 \<le> length (filter (\<lambda>x. x = 122) ?r)"
    by simp
  have low: "example_lower ?c = ?c"
    by (simp add: example_lower_def)
  have no: "\<not> contains (lit k) ?c" if "122 \<notin> set (lit k)" "k \<noteq> []" for k
  proof
    assume "contains (lit k) ?c"
    then have "set (lit k) \<subseteq> set ?c" by (rule contains_set)
    then have "set (lit k) \<subseteq> {122}" by simp
    moreover from that(2) obtain x where "x \<in> set (lit k)"
      by (cases k) (auto simp add: lit_def)
    ultimately show False using that(1) by auto
  qed
  have "?r = strip (generic_template ?c (lit ''spark-sql''))"
    unfolding convert_cql_to_sql_def low Let_def
    using no [of "''diabetes''"] no [of "''hba1c''"] no [of "''a1c''"]
      no [of "''breast''"] no [of "''mammog''"] no [of "''cms125''"]
    by (simp add: lit_def)
  then have "length (filter (\<lambda>x. x = 122) ?r) \<le> 200"
    using strip_filter_le [of "\<lambda>x. x = 122" "generic_template ?c (lit ''spark-sql'')"]
      generic_template_count_z
    by simp
  with big show False by simp
qed

section \<open>The mock query adapter\<close>

lemma MOCK_PATIENTS_length: "length MOCK_PATIENTS = 5"
  by (simp add: MOCK_PATIENTS_def)

text \<open>
  C5. For every query text the mock query adapter returns a success dict. If the
  lower-cased text contains \<open>risk\<close>, the result has the five mock rows
  (\<open>row_count\<close> 5), and \<open>RiskScore\<close> and \<open>GapStatus\<close> are among its columns and are
  keys of every row. If it contains none of \<open>patient\<close>, \<open>risk\<close>, \<open>gap\<close>, the result
  has \<open>row_count\<close> 0, no columns and no rows.
\<close>

theorem execute_databricks_sql_mock_keywords:
  "(\<exists>r. execute_databricks_sql_mock str_lower q = Query_Success r)
   \<and> (contains (lit ''risk'') (str_lower q) \<longrightarrow>
        (\<exists>r. execute_databricks_sql_mock str_lower q = Query_Success r
           \<and> q_data r \<noteq> [] \<and> length (q_data r) = 5 \<and> q_row_count r = 5
           \<and> lit ''RiskScore'' \<in> set (q_columns r) \<and> lit ''GapStatus'' \<in> set (q_columns r)
           \<and> (\<forall>rw\<in>set (q_data r).
                 (lit ''RiskScore'') \<in> dom rw \<and> lit ''GapStatus'' \<in> dom rw)))
   \<and> (\<not> contains (lit ''patient'') (str_lower q) \<and> \<not> contains (lit ''risk'') (str_lower q)
        \<and> \<not> contains (lit ''gap'') (str_lower q) \<longrightarrow>
        execute_databricks_sql_mock str_lower q = Query_Success
          \<lparr>q_source = Some (lit ''mock_data''), q_note = None, q_row_count = 0,
           q_columns = [], q_data = [],
           q_message = Some (lit ''Query executed (mock mode - no matching data)'')\<rparr>)"
proof -
  have rows: "\<forall>rw\<in>set (map mock_row MOCK_PATIENTS).
                (lit ''RiskScore'') \<in> dom rw \<and> lit ''GapStatus'' \<in> dom rw"
    by (auto simp: mock_row_def)
  have ne: "MOCK_PATIENTS \<noteq> []"
    using MOCK_PATIENTS_length by auto
  show ?thesis
    using rows ne by (simp add: execute_databricks_sql_mock_def Let_def MOCK_PATIENTS_length)
qed

theorem execute_databricks_sql_mock_keywords_witness:
  "contains (lit ''risk'') (example_lower (lit ''SELECT * FROM RISK_scores''))
   \<and> (\<exists>r. execute_databricks_sql_mock example_lower (lit ''SELECT * FROM RISK_scores'')
             = Query_Success r
         \<and> q_row_count r = 5 \<and> lit ''RiskScore'' \<in> set (q_columns r)
         \<and> (\<forall>rw\<in>set (q_data r).
               (lit ''RiskScore'') \<in> dom rw \<and> lit ''GapStatus'' \<in> dom rw))
   \<and> contains (lit ''risk'') (example_lower (lit ''SELECT * FROM RIS'' @ [0x212A]))
   \<and> (\<exists>r. execute_databricks_sql_mock example_lower (lit ''SELECT * FROM RIS'' @ [0x212A])
             = Query_Success r
         \<and> q_row_count r = 5 \<and> length (q_data r) = 5)
   \<and> \<not> contains (lit ''patient'') (example_lower (lit ''SELECT 1''))
   \<and> \<not> contains (lit ''risk'') (example_lower (lit ''SELECT 1''))
   \<and> \<not> contains (lit ''gap'') (example_lower (lit ''SELECT 1''))
   \<and> execute_databricks_sql_mock example_lower (lit ''SELECT 1'') = Query_Success
          \<lparr>q_source = Some (lit ''mock_data''), q_note = None, q_row_count = 0,
           q_columns = [], q_data = [],
           q_message = Some (lit ''Query executed (mock mode - no matching data)'')\<rparr>"
proof -
  have k: "contains (lit ''risk'') (example_lower (lit ''SELECT * FROM RIS'' @ [0x212A]))"
    by (simp add: example_lower_def lit_def)
  have a: "contains (lit ''risk'') (example_lower (lit ''SELECT * FROM RISK_scores''))"
    by (simp add: example_lower_def lit_def)
  have b: "\<not> contains (lit ''patient'') (example_lower (lit ''SELECT 1''))
           \<and> \<not> contains (lit ''risk'') (example_lower (lit ''SELECT 1''))
           \<and> \<not> contains (lit ''gap'') (example_lower (lit ''SELECT 1''))"
    by (simp add: example_lower_def lit_def)
  show ?thesis
    using a b k
      execute_databricks_sql_mock_keywords [of example_lower "lit ''SELECT * FROM RISK_scores''"]
      execute_databricks_sql_mock_keywords [of example_lower "lit ''SELECT * FROM RIS'' @ [0x212A]"]
      execute_databricks_sql_mock_keywords [of example_lower "lit ''SELECT 1''"]
    by auto
qed

section \<open>Unknown tools\<close>

text \<open>
  C7. In each of the three servers, \<open>call_tool\<close> with a name that is not in the
  server's \<open>list_tools\<close> returns the report \<open>Unknown tool: <name>\<close>, runs no adapter
  (live or mock), and (action server) leaves \<open>SENT_MESSAGES\<close> as it was.
\<close>

theorem unknown_tool_runs_nothing:
  "(name \<notin> set (map t_name action_list_tools) \<longrightarrow>
      action_call_tool cfg client clk name args S
        = (\<lparr>report = lit ''Unknown tool: '' @ name, invoked = []\<rparr>, S))
   \<and> (name \<notin> set (map t_name cql_list_tools) \<longrightarrow>
      cql_call_tool str_lower name args = \<lparr>report = lit ''Unknown tool: '' @ name, invoked = []\<rparr>)
   \<and> (name \<notin> set (map t_name data_list_tools) \<longrightarrow>
      data_call_tool str_lower dcfg databricks firemetrics name args
        = \<lparr>report = lit ''Unknown tool: '' @ name, invoked = []\<rparr>)"
  by (simp add: action_list_tools_def cql_list_tools_def data_list_tools_def
        action_call_tool_def cql_call_tool_def data_call_tool_def)

theorem unknown_tool_runs_nothing_witness:
  "lit ''no_such_tool'' \<notin> set (map t_name action_list_tools)
   \<and> (lit ''no_such_tool'') \<notin> set (map t_name cql_list_tools)
   \<and> (lit ''no_such_tool'') \<notin> set (map t_name data_list_tools)
   \<and> action_call_tool twilio_without_from twilio_accepting noon (lit ''no_such_tool'') Map.empty []
        = (\<lparr>report = lit ''Unknown tool: no_such_tool'', invoked = []\<rparr>, [])
   \<and> cql_call_tool example_lower (lit ''no_such_tool'') Map.empty
        = \<lparr>report = lit ''Unknown tool: no_such_tool'', invoked = []\<rparr>
   \<and> data_call_tool example_lower partial_data_config databricks_unreachable firemetrics_unreachable
        (lit ''no_such_tool'') Map.empty
        = \<lparr>report = lit ''Unknown tool: no_such_tool'', invoked = []\<rparr>"
proof -
  have n: "lit ''no_such_tool'' \<notin> set (map t_name action_list_tools)"
    "lit ''no_such_tool'' \<notin> set (map t_name cql_list_tools)"
    "lit ''no_such_tool'' \<notin> set (map t_name data_list_tools)"
    by (simp_all add: action_list_tools_def cql_list_tools_def data_list_tools_def lit_eq_iff)
  show ?thesis
    using n unknown_tool_runs_nothing
      [where name = "lit ''no_such_tool''" and cfg = twilio_without_from
         and client = twilio_accepting and clk = noon and args = Map.empty and S = "[]"
         and str_lower = example_lower and dcfg = partial_data_config
         and databricks = databricks_unreachable and firemetrics = firemetrics_unreachable]
    by simp
qed

section \<open>The action server\<close>

text \<open>
  C4. \<open>send_sms_notification\<close> with an empty (or absent) \<open>phone_number\<close>, or with an
  empty (or absent) \<open>message_body\<close>, returns the error report of the first failing
  check, whatever the Twilio configuration: neither send function runs and
  \<open>SENT_MESSAGES\<close> is returned unchanged.
\<close>

theorem send_sms_empty_argument:
  "(get_arg args (lit ''phone_number'') [] = [] \<longrightarrow>
      action_call_tool cfg client clk (lit ''send_sms_notification'') args S
        = (\<lparr>report = lit ''## Error'' @ nl @ nl @ lit ''**Error:** Phone number is required'',
            invoked = []\<rparr>, S))
   \<and> (get_arg args (lit ''phone_number'') [] \<noteq> [] \<and> get_arg args (lit ''message_body'') [] = [] \<longrightarrow>
      action_call_tool cfg client clk (lit ''send_sms_notification'') args S
        = (\<lparr>report = lit ''## Error'' @ nl @ nl @ lit ''**Error:** Message body is required'',
            invoked = []\<rparr>, S))"
  by (simp add: action_call_tool_def Let_def)

theorem send_sms_empty_argument_witness:
  "get_arg [lit ''phone_number'' \<mapsto> [], lit ''message_body'' \<mapsto> (lit ''Reminder'')] (lit ''phone_number'') [] = []
   \<and> action_call_tool twilio_without_from twilio_accepting noon (lit ''send_sms_notification'')
        [lit ''phone_number'' \<mapsto> [], lit ''message_body'' \<mapsto> (lit ''Reminder'')] []
        = (\<lparr>report = lit ''## Error'' @ nl @ nl @ lit ''**Error:** Phone number is required'',
            invoked = []\<rparr>, [])
   \<and> get_arg [lit ''phone_number'' \<mapsto> (lit ''+15550000000'')] (lit ''phone_number'') [] \<noteq> []
   \<and> get_arg [lit ''phone_number'' \<mapsto> (lit ''+15550000000'')] (lit ''message_body'') [] = []
   \<and> action_call_tool no_twilio twilio_accepting noon (lit ''send_sms_notification'')
        [lit ''phone_number'' \<mapsto> (lit ''+15550000000'')] []
        = (\<lparr>report = lit ''## Error'' @ nl @ nl @ lit ''**Error:** Message body is required'',
            invoked = []\<rparr>, [])"
proof -
  have a: "get_arg [lit ''phone_number'' \<mapsto> [], lit ''message_body'' \<mapsto> (lit ''Reminder'')]
             (lit ''phone_number'') [] = []"
    by (simp add: get_arg_def)
  have b: "get_arg [lit ''phone_number'' \<mapsto> (lit ''+15550000000'')] (lit ''phone_number'') [] \<noteq> []"
    "get_arg [lit ''phone_number'' \<mapsto> (lit ''+15550000000'')] (lit ''message_body'') [] = []"
    by (simp_all add: get_arg_def)
  show ?thesis
    using a b
      send_sms_empty_argument
        [of "[lit ''phone_number'' \<mapsto> [], lit ''message_body'' \<mapsto> (lit ''Reminder'')]"
            twilio_without_from twilio_accepting noon "[]"]
      send_sms_empty_argument
        [of "[lit ''phone_number'' \<mapsto> (lit ''+15550000000'')]" no_twilio twilio_accepting noon "[]"]
    by blast
qed

lemma action_call_tool_extends:
  "prefix S (snd (action_call_tool cfg client clk name args S))"
  by (simp add: action_call_tool_def send_sms_mock_def Let_def)

lemma action_session_extends: "prefix S (action_session cfg calls S)"
proof (induction calls arbitrary: S)
  case Nil
  then show ?case by (simp add: action_session_def)
next
  case (Cons c calls)
  obtain client clk name args where c: "c = (client, clk, name, args)"
    by (cases c) auto
  let ?S' = "snd (action_call_tool cfg client clk name args S)"
  have step: "action_session cfg (c # calls) S = action_session cfg calls ?S'"
    by (simp add: action_session_def c)
  have "prefix S ?S'" by (rule action_call_tool_extends)
  moreover have "prefix ?S' (action_session cfg calls ?S')" by (rule Cons.IH)
  ultimately show ?case
    unfolding step by (rule prefix_order.trans)
qed

lemma message_entries_append:
  "message_entries (S @ T)
     = message_entries S @ concat (map message_entry (List.enumerate (Suc (length S)) T))"
  by (simp add: message_entries_def enumerate_append_eq)

lemma message_entries_prefix:
  "prefix S S' \<Longrightarrow> prefix (message_entries S) (message_entries S')"
  by (auto simp add: prefix_def message_entries_append)

text \<open>
  C8. For every \<open>SENT_MESSAGES\<close>, \<open>get_sent_messages\<close> returns it unchanged and runs no
  adapter. What it reports is every record of \<open>SENT_MESSAGES\<close>, in order and numbered
  from 1, under a heading with their number. Every call of the server, and so every
  sequence of calls of one process lifetime, only extends \<open>SENT_MESSAGES\<close> at its end:
  the number of records never decreases, and the entries reported before are the
  first entries of every later report.
\<close>

theorem get_sent_messages_read_only:
  "action_call_tool cfg client clk (lit ''get_sent_messages'') args S
     = (\<lparr>report = sent_messages_response S, invoked = []\<rparr>, S)
   \<and> prefix S (snd (action_call_tool cfg client' clk' name args' S))
   \<and> prefix S (action_session cfg calls S)
   \<and> length S \<le> length (action_session cfg calls S)
   \<and> sent_messages_response S =
       (if S = [] then
          lit ''## Sent Messages'' @ nl @ nl @ lit ''No messages have been sent in this session.''
        else
          lit ''## Sent Messages ('' @ str_nat (length S) @ lit '' total)'' @ nl @ nl
            @ message_entries S)
   \<and> message_entries S = concat (map message_entry (zip [1..<Suc (length S)] S))
   \<and> message_entries (S @ [r]) = message_entries S @ message_entry (Suc (length S), r)
   \<and> prefix (message_entries S) (message_entries (action_session cfg calls S))"
proof -
  have ext: "prefix S (action_session cfg calls S)"
    by (rule action_session_extends)
  then have len: "length S \<le> length (action_session cfg calls S)"
    by (rule prefix_length_le)
  have call: "action_call_tool cfg client clk (lit ''get_sent_messages'') args S
     = (\<lparr>report = sent_messages_response S, invoked = []\<rparr>, S)"
    by (simp add: action_call_tool_def lit_eq_iff)
  have step: "prefix S (snd (action_call_tool cfg client' clk' name args' S))"
    by (rule action_call_tool_extends)
  have resp: "sent_messages_response S =
       (if S = [] then
          lit ''## Sent Messages'' @ nl @ nl @ lit ''No messages have been sent in this session.''
        else
          lit ''## Sent Messages ('' @ str_nat (length S) @ lit '' total)'' @ nl @ nl
            @ message_entries S)"
    by (simp add: sent_messages_response_def)
  have all: "message_entries S = concat (map message_entry (zip [1..<Suc (length S)] S))"
    by (simp add: message_entries_def enumerate_eq_zip)
  have snoc: "message_entries (S @ [r]) = message_entries S @ message_entry (Suc (length S), r)"
    by (simp add: message_entries_append)
  have listing: "prefix (message_entries S) (message_entries (action_session cfg calls S))"
    using ext by (rule message_entries_prefix)
  from call step ext len resp all snoc listing show ?thesis
    by (intro conjI)
qed

text \<open>
  C9. In mock mode (account SID or auth token empty), from an empty
  \<open>SENT_MESSAGES\<close>, \<open>send_sms_notification\<close> to \<open>+15550000000\<close> with body \<open>Reminder\<close>
  runs the mock adapter only, reports the send in Demo mode with the generated
  identifier \<open>SM_MOCK_<time>\<close>, and leaves exactly one record, with that number and
  body, in \<open>SENT_MESSAGES\<close>; \<open>get_sent_messages\<close> then reports one message, with
  that number and body.
\<close>

theorem mock_send_then_report:
  "\<not> (TWILIO_ACCOUNT_SID cfg \<noteq> [] \<and> TWILIO_AUTH_TOKEN cfg \<noteq> []) \<Longrightarrow>
   (let rec = \<lparr>sms_status = lit ''simulated'',
               sms_message_sid = lit ''SM_MOCK_'' @ now_compact clk,
               sms_to = lit ''+15550000000'',
               sms_body = lit ''Reminder'',
               sms_timestamp = now_iso clk,
               sms_note = lit ''Demo mode - set TWILIO_* env vars to send real SMS''\<rparr>
    in action_call_tool cfg client clk (lit ''send_sms_notification'')
         [lit ''phone_number'' \<mapsto> (lit ''+15550000000''), lit ''message_body'' \<mapsto> (lit ''Reminder'')] []
       = (\<lparr>report =
             text_lines [
               lit ''## SMS Notification Sent '' @ [0x2705],
               [],
               lit ''**Mode:** Demo'',
               lit ''**To:** +15550000000'',
               lit ''**Message SID:** SM_MOCK_'' @ now_compact clk,
               lit ''**Timestamp:** '' @ now_iso clk,
               [],
               lit ''### Message Content:'',
               lit ''> Reminder'']
             @ nl @ lit ''*Demo mode - set TWILIO_* env vars to send real SMS*'',
            invoked = [Sms_Mock (lit ''+15550000000'') (lit ''Reminder'')]\<rparr>,
          [rec])
     \<and> action_call_tool cfg client' clk' (lit ''get_sent_messages'') args [rec]
       = (\<lparr>report =
             text_lines [
               lit ''## Sent Messages (1 total)'',
               [],
               lit ''### Message 1'',
               lit ''- **To:** +15550000000'',
               lit ''- **Status:** simulated'',
               lit ''- **Time:** '' @ now_iso clk,
               lit ''- **Content:** Reminder'',
               []],
            invoked = []\<rparr>,
          [rec]))"
proof -
  assume mock: "\<not> (TWILIO_ACCOUNT_SID cfg \<noteq> [] \<and> TWILIO_AUTH_TOKEN cfg \<noteq> [])"
  have send: "action_call_tool cfg client clk (lit ''send_sms_notification'')
         [lit ''phone_number'' \<mapsto> (lit ''+15550000000''), lit ''message_body'' \<mapsto> (lit ''Reminder'')] []
       = (\<lparr>report = sms_response (Sms_Simulated (fst (send_sms_mock clk (lit ''+15550000000'') (lit ''Reminder'') []))),
            invoked = [Sms_Mock (lit ''+15550000000'') (lit ''Reminder'')]\<rparr>,
          snd (send_sms_mock clk (lit ''+15550000000'') (lit ''Reminder'') []))"
    using mock by (auto simp add: action_call_tool_def get_arg_def Let_def split: prod.splits)
  have rep: "sms_response (Sms_Simulated (fst (send_sms_mock clk (lit ''+15550000000'') (lit ''Reminder'') [])))
      = text_lines [
               lit ''## SMS Notification Sent '' @ [0x2705],
               [],
               lit ''**Mode:** Demo'',
               lit ''**To:** +15550000000'',
               lit ''**Message SID:** SM_MOCK_'' @ now_compact clk,
               lit ''**Timestamp:** '' @ now_iso clk,
               [],
               lit ''### Message Content:'',
               lit ''> Reminder'']
             @ nl @ lit ''*Demo mode - set TWILIO_* env vars to send real SMS*''"
    by (simp add: sms_response_def sent_response_def send_sms_mock_def Let_def)
  have listing: "sent_messages_response [snd (send_sms_mock clk (lit ''+15550000000'') (lit ''Reminder'') []) ! 0]
      = text_lines [
               lit ''## Sent Messages (1 total)'',
               [],
               lit ''### Message 1'',
               lit ''- **To:** +15550000000'',
               lit ''- **Status:** simulated'',
               lit ''- **Time:** '' @ now_iso clk,
               lit ''- **Content:** Reminder'',
               []]"
    by (simp add: sent_messages_response_def message_entries_def message_entry_def
          send_sms_mock_def Let_def List.enumerate_eq_zip text_lines_def lit_def)
  show ?thesis
    unfolding Let_def send rep
    using listing by (simp add: send_sms_mock_def Let_def action_call_tool_def)
qed

theorem mock_send_then_report_witness:
  "action_call_tool no_twilio twilio_accepting noon (lit ''send_sms_notification'')
         [lit ''phone_number'' \<mapsto> (lit ''+15550000000''), lit ''message_body'' \<mapsto> (lit ''Reminder'')] []
       = (\<lparr>report =
             text_lines [
               lit ''## SMS Notification Sent '' @ [0x2705],
               [],
               lit ''**Mode:** Demo'',
               lit ''**To:** +15550000000'',
               lit ''**Message SID:** SM_MOCK_20240101120000'',
               lit ''**Timestamp:** 2024-01-01T12:00:00'',
               [],
               lit ''### Message Content:'',
               lit ''> Reminder'']
             @ nl @ lit ''*Demo mode - set TWILIO_* env vars to send real SMS*'',
            invoked = [Sms_Mock (lit ''+15550000000'') (lit ''Reminder'')]\<rparr>,
          [\<lparr>sms_status = lit ''simulated'',
            sms_message_sid = lit ''SM_MOCK_20240101120000'',
            sms_to = lit ''+15550000000'',
            sms_body = lit ''Reminder'',
            sms_timestamp = lit ''2024-01-01T12:00:00'',
            sms_note = lit ''Demo mode - set TWILIO_* env vars to send real SMS''\<rparr>])"
proof -
  have mock: "\<not> (TWILIO_ACCOUNT_SID no_twilio \<noteq> [] \<and> TWILIO_AUTH_TOKEN no_twilio \<noteq> [])"
    by (simp add: no_twilio_def)
  show ?thesis
    using mock_send_then_report
            [where cfg = no_twilio and clk = noon and client = twilio_accepting
               and client' = twilio_accepting and clk' = noon and args = Map.empty, OF mock]
    by (simp add: Let_def noon_def)
qed

section \<open>Arguments that are absent or outside the declared values\<close>

text \<open>
  C1. For every tool of every server's \<open>list_tools\<close>, a call whose arguments lack a
  required parameter is answered with the validation failure \<open>MissingParameter\<close>,
  naming a required parameter that is absent; \<open>call_tool\<close> is not run, so no adapter
  (live or mock) runs and the response carries nothing that a backend produced,
  and \<open>SENT_MESSAGES\<close> is returned unchanged.
\<close>

theorem missing_required_argument_rejected:
  "(\<forall>t\<in>set action_list_tools. \<forall>k\<in>set (t_required t). args k = None \<longrightarrow>
      (\<exists>k'\<in>set (t_required t). args k' = None
         \<and> action_serve cfg client clk (t_name t) args S = (Inl (MissingParameter k'), S)
         \<and> adapters_run (fst (action_serve cfg client clk (t_name t) args S)) = []))
   \<and> (\<forall>t\<in>set cql_list_tools. \<forall>k\<in>set (t_required t). args k = None \<longrightarrow>
      (\<exists>k'\<in>set (t_required t). args k' = None
         \<and> cql_serve str_lower (t_name t) args = Inl (MissingParameter k')
         \<and> adapters_run (cql_serve str_lower (t_name t) args) = []))
   \<and> (\<forall>t\<in>set data_list_tools. \<forall>k\<in>set (t_required t). args k = None \<longrightarrow>
      (\<exists>k'\<in>set (t_required t). args k' = None
         \<and> data_serve str_lower dcfg databricks firemetrics (t_name t) args
             = Inl (MissingParameter k')
         \<and> adapters_run (data_serve str_lower dcfg databricks firemetrics (t_name t) args)
             = []))"
proof -
  have action: "\<forall>t\<in>set action_list_tools. \<forall>k\<in>set (t_required t). args k = None \<longrightarrow>
      (\<exists>k'\<in>set (t_required t). args k' = None
         \<and> action_serve cfg client clk (t_name t) args S = (Inl (MissingParameter k'), S)
         \<and> adapters_run (fst (action_serve cfg client clk (t_name t) args S)) = [])"
    by (auto simp add: action_list_tools_def action_serve_def check_call_def validate_def
          adapters_run_def split: option.splits)
  have cql: "\<forall>t\<in>set cql_list_tools. \<forall>k\<in>set (t_required t). args k = None \<longrightarrow>
      (\<exists>k'\<in>set (t_required t). args k' = None
         \<and> cql_serve str_lower (t_name t) args = Inl (MissingParameter k')
         \<and> adapters_run (cql_serve str_lower (t_name t) args) = [])"
    by (simp add: cql_list_tools_def cql_serve_def check_call_def validate_def
          adapters_run_def)
  have data: "\<forall>t\<in>set data_list_tools. \<forall>k\<in>set (t_required t). args k = None \<longrightarrow>
      (\<exists>k'\<in>set (t_required t). args k' = None
         \<and> data_serve str_lower dcfg databricks firemetrics (t_name t) args
             = Inl (MissingParameter k')
         \<and> adapters_run (data_serve str_lower dcfg databricks firemetrics (t_name t) args)
             = [])"
    by (simp add: data_list_tools_def data_serve_def check_call_def validate_def
          adapters_run_def)
  from action cql data show ?thesis
    by (intro conjI)
qed

theorem missing_required_argument_rejected_witness:
  "action_serve twilio_without_from twilio_accepting noon (lit ''send_sms_notification'')
       [lit ''phone_number'' \<mapsto> lit ''+15550000000''] []
     = (Inl (MissingParameter (lit ''message_body'')), [])
   \<and> cql_serve example_lower (lit ''convert_cql_to_sql'') Map.empty
     = Inl (MissingParameter (lit ''cql_logic''))
   \<and> cql_serve example_lower (lit ''validate_cql'') Map.empty
     = Inl (MissingParameter (lit ''cql_expression''))
   \<and> data_serve example_lower no_data_config databricks_unreachable firemetrics_unreachable
       (lit ''execute_databricks_sql'') Map.empty
     = Inl (MissingParameter (lit ''sql_query''))
   \<and> data_serve example_lower no_data_config databricks_unreachable firemetrics_unreachable
       (lit ''lookup_patient_details'') Map.empty
     = Inl (MissingParameter (lit ''patient_id''))"
proof -
  note m1 = missing_required_argument_rejected
             [where args = "[lit ''phone_number'' \<mapsto> lit ''+15550000000'']"
                and cfg = twilio_without_from and client = twilio_accepting and clk = noon
                and S = "[]" and str_lower = example_lower and dcfg = no_data_config
                and databricks = databricks_unreachable
                and firemetrics = firemetrics_unreachable, THEN conjunct1]
  note m = missing_required_argument_rejected
             [where args = Map.empty
                and cfg = twilio_without_from and client = twilio_accepting and clk = noon
                and S = "[]" and str_lower = example_lower and dcfg = no_data_config
                and databricks = databricks_unreachable
                and firemetrics = firemetrics_unreachable]
  note m_cql = m [THEN conjunct2, THEN conjunct1]
  note m_data = m [THEN conjunct2, THEN conjunct2]
  have a: "action_serve twilio_without_from twilio_accepting noon (lit ''send_sms_notification'')
       [lit ''phone_number'' \<mapsto> lit ''+15550000000''] []
     = (Inl (MissingParameter (lit ''message_body'')), [])"
    using m1 by (auto simp add: action_list_tools_def)
  have b: "cql_serve example_lower (lit ''convert_cql_to_sql'') Map.empty
     = Inl (MissingParameter (lit ''cql_logic''))"
    "cql_serve example_lower (lit ''validate_cql'') Map.empty
     = Inl (MissingParameter (lit ''cql_expression''))"
    using m_cql by (simp_all add: cql_list_tools_def)
  have c: "data_serve example_lower no_data_config databricks_unreachable firemetrics_unreachable
       (lit ''execute_databricks_sql'') Map.empty
     = Inl (MissingParameter (lit ''sql_query''))"
    "data_serve example_lower no_data_config databricks_unreachable firemetrics_unreachable
       (lit ''lookup_patient_details'') Map.empty
     = Inl (MissingParameter (lit ''patient_id''))"
    using m_data by (simp_all add: data_list_tools_def)
  from a b c show ?thesis by (intro conjI)
qed



section \<open>Live or mock\<close>

lemma contains_self: "contains sub sub"
  by (simp add: contains_sublist)

lemma query_response_mock_tag:
  "contains (lit ''**Mode:** Demo (mock data)'')
     (query_response (execute_databricks_sql_mock str_lower q))"
proof -
  have "\<exists>r. execute_databricks_sql_mock str_lower q = Query_Success r
          \<and> q_source r = Some (lit ''mock_data'')"
    by (simp add: execute_databricks_sql_mock_def Let_def)
  then obtain r where r: "execute_databricks_sql_mock str_lower q = Query_Success r"
    and src: "q_source r = Some (lit ''mock_data'')"
    by blast
  define hd_lines where "hd_lines = text_lines [
                 lit ''## Databricks Query Results'',
                 [],
                 lit ''**Status:** Success'',
                 lit ''**Rows Returned:** '' @ str_nat (q_row_count r)]"
  have "\<exists>rest. query_response (Query_Success r)
          = hd_lines @ lit ''**Mode:** Demo (mock data)'' @ rest"
    using src by (simp add: query_response_def Let_def hd_lines_def)
  then show ?thesis
    unfolding r using contains_middle by metis
qed

lemma sent_response_mode:
  "contains (lit ''**Mode:** '' @ mode) (sent_response mode t sid ts b note)"
proof -
  have "contains (lit ''**Mode:** '' @ mode) (text_lines [
            lit ''## SMS Notification Sent '' @ [0x2705],
            [],
            lit ''**Mode:** '' @ mode,
            lit ''**To:** '' @ t,
            lit ''**Message SID:** '' @ sid,
            lit ''**Timestamp:** '' @ ts,
            [],
            lit ''### Message Content:'',
            lit ''> '' @ b])"
    by (rule contains_text_lines [where l = "lit ''**Mode:** '' @ mode"], simp, rule contains_self)
  then show ?thesis
    by (auto simp add: sent_response_def Let_def contains_appendL split: option.splits)
qed

lemma lookup_response_mock_note:
  assumes "PATIENT_DETAILS pid \<noteq> None"
  shows "contains (lit ''*Using demo data - set FIREMETRICS_* env vars for real connection*'')
           (lookup_response pid (lookup_patient_details_mock pid))"
proof -
  from assms obtain p where p: "PATIENT_DETAILS pid = Some p" by auto
  show ?thesis
    by (simp add: lookup_patient_details_mock_def p lookup_response_def Let_def
          contains_appendR contains_self)
qed


lemma sms_response_live:
  "contains (lit ''**Mode:** Live'') (sms_response (Sms_Sent sid t b ts))"
  using sent_response_mode [of "lit ''Live''" t sid ts b None]
  by (simp add: sms_response_def)

lemma sms_response_demo:
  "contains (lit ''**Mode:** Demo'') (sms_response (Sms_Simulated r))"
  using sent_response_mode
          [of "lit ''Demo''" "sms_to r" "sms_message_sid r" "sms_timestamp r" "sms_body r"
              "Some (sms_note r)"]
  by (simp add: sms_response_def)

lemma action_call_tool_send:
  assumes "get_arg args (lit ''phone_number'') [] \<noteq> []"
    and "get_arg args (lit ''message_body'') [] \<noteq> []"
  shows "action_call_tool cfg client clk (lit ''send_sms_notification'') args S =
     (if TWILIO_ACCOUNT_SID cfg \<noteq> [] \<and> TWILIO_AUTH_TOKEN cfg \<noteq> [] then
        (\<lparr>report = sms_response
             (send_sms_real cfg client clk (get_arg args (lit ''phone_number'') [])
                (get_arg args (lit ''message_body'') [])),
          invoked = [Sms_Real (get_arg args (lit ''phone_number'') [])
                       (get_arg args (lit ''message_body'') [])]\<rparr>, S)
      else
        (\<lparr>report = sms_response (Sms_Simulated
             (fst (send_sms_mock clk (get_arg args (lit ''phone_number'') [])
                (get_arg args (lit ''message_body'') []) S))),
          invoked = [Sms_Mock (get_arg args (lit ''phone_number'') [])
                       (get_arg args (lit ''message_body'') [])]\<rparr>,
         snd (send_sms_mock clk (get_arg args (lit ''phone_number'') [])
                (get_arg args (lit ''message_body'') []) S)))"
  using assms by (simp add: action_call_tool_def Let_def split: prod.splits)

text \<open>
  C3 (as amended). Which adapter serves a call is decided by the configuration
  alone, through these tests and no others: Twilio is live exactly when the account
  SID and the auth token are both non-empty (the from-number is not tested);
  Databricks is live exactly when the host and the token are both non-empty (the
  warehouse and the HTTP path are not tested); Firemetrics is live exactly when the
  DB host is non-empty (the API key is not tested). Otherwise the mock adapter
  serves the call: the SMS report then carries \<open>**Mode:** Demo\<close>, the query report
  \<open>**Mode:** Demo (mock data)\<close>, and the lookup report the demo-data note when the
  patient is found (and no tag when it is not). A live send that Twilio accepts is
  reported with \<open>**Mode:** Live\<close>.
\<close>

theorem backend_selection:
  "(get_arg args (lit ''phone_number'') [] \<noteq> [] \<and> get_arg args (lit ''message_body'') [] \<noteq> [] \<longrightarrow>
      invoked (fst (action_call_tool cfg client clk (lit ''send_sms_notification'') args S))
        = [if TWILIO_ACCOUNT_SID cfg \<noteq> [] \<and> TWILIO_AUTH_TOKEN cfg \<noteq> []
           then Sms_Real (get_arg args (lit ''phone_number'') []) (get_arg args (lit ''message_body'') [])
           else Sms_Mock (get_arg args (lit ''phone_number'') []) (get_arg args (lit ''message_body'') [])])
   \<and> (get_arg args (lit ''phone_number'') [] \<noteq> [] \<and> get_arg args (lit ''message_body'') [] \<noteq> []
        \<and> \<not> (TWILIO_ACCOUNT_SID cfg \<noteq> [] \<and> TWILIO_AUTH_TOKEN cfg \<noteq> []) \<longrightarrow>
      contains (lit ''**Mode:** Demo'')
        (report (fst (action_call_tool cfg client clk (lit ''send_sms_notification'') args S))))
   \<and> (get_arg args (lit ''phone_number'') [] \<noteq> [] \<and> get_arg args (lit ''message_body'') [] \<noteq> []
        \<and> TWILIO_ACCOUNT_SID cfg \<noteq> [] \<and> TWILIO_AUTH_TOKEN cfg \<noteq> []
        \<and> client (TWILIO_ACCOUNT_SID cfg) (TWILIO_AUTH_TOKEN cfg)
             (get_arg args (lit ''message_body'') []) (TWILIO_FROM_NUMBER cfg)
             (get_arg args (lit ''phone_number'') []) = Inr sid \<longrightarrow>
      contains (lit ''**Mode:** Live'')
        (report (fst (action_call_tool cfg client clk (lit ''send_sms_notification'') args S))))
   \<and> invoked (data_call_tool str_lower dcfg databricks firemetrics (lit ''execute_databricks_sql'') args)
        = [if DATABRICKS_HOST dcfg \<noteq> [] \<and> DATABRICKS_TOKEN dcfg \<noteq> []
           then Sql_Real (get_arg args (lit ''sql_query'') [])
           else Sql_Mock (get_arg args (lit ''sql_query'') [])]
   \<and> (\<not> (DATABRICKS_HOST dcfg \<noteq> [] \<and> DATABRICKS_TOKEN dcfg \<noteq> []) \<longrightarrow>
      contains (lit ''**Mode:** Demo (mock data)'')
        (report (data_call_tool str_lower dcfg databricks firemetrics (lit ''execute_databricks_sql'') args)))
   \<and> invoked (data_call_tool str_lower dcfg databricks firemetrics (lit ''lookup_patient_details'') args)
        = [if FIREMETRICS_DB_HOST dcfg \<noteq> []
           then Lookup_Real (get_arg args (lit ''patient_id'') [])
           else Lookup_Mock (get_arg args (lit ''patient_id'') [])]
   \<and> (FIREMETRICS_DB_HOST dcfg = []
        \<and> PATIENT_DETAILS (get_arg args (lit ''patient_id'') []) \<noteq> None \<longrightarrow>
      contains (lit ''*Using demo data - set FIREMETRICS_* env vars for real connection*'')
        (report (data_call_tool str_lower dcfg databricks firemetrics (lit ''lookup_patient_details'') args)))
   \<and> (FIREMETRICS_DB_HOST dcfg = []
        \<and> PATIENT_DETAILS (get_arg args (lit ''patient_id'') []) = None \<longrightarrow>
      report (data_call_tool str_lower dcfg databricks firemetrics (lit ''lookup_patient_details'') args)
        = lit ''## Patient Not Found'' @ nl @ nl @ lit ''No patient found with ID: ''
            @ get_arg args (lit ''patient_id'') [])"
proof -
  let ?send = "action_call_tool cfg client clk (lit ''send_sms_notification'') args S"
  let ?query = "data_call_tool str_lower dcfg databricks firemetrics (lit ''execute_databricks_sql'') args"
  let ?lookup = "data_call_tool str_lower dcfg databricks firemetrics (lit ''lookup_patient_details'') args"
  let ?phone = "get_arg args (lit ''phone_number'') []"
  let ?body = "get_arg args (lit ''message_body'') []"
  let ?pid = "get_arg args (lit ''patient_id'') []"
  let ?live = "TWILIO_ACCOUNT_SID cfg \<noteq> [] \<and> TWILIO_AUTH_TOKEN cfg \<noteq> []"
  have c1: "?phone \<noteq> [] \<and> ?body \<noteq> [] \<longrightarrow>
      invoked (fst ?send) = [if ?live then Sms_Real ?phone ?body else Sms_Mock ?phone ?body]"
    by (simp add: action_call_tool_send)
  have c2: "?phone \<noteq> [] \<and> ?body \<noteq> [] \<and> \<not> ?live \<longrightarrow>
      contains (lit ''**Mode:** Demo'') (report (fst ?send))"
    by (auto simp add: action_call_tool_send sms_response_demo)
  have c3: "?phone \<noteq> [] \<and> ?body \<noteq> [] \<and> TWILIO_ACCOUNT_SID cfg \<noteq> []
        \<and> TWILIO_AUTH_TOKEN cfg \<noteq> []
        \<and> client (TWILIO_ACCOUNT_SID cfg) (TWILIO_AUTH_TOKEN cfg) ?body
             (TWILIO_FROM_NUMBER cfg) ?phone = Inr sid \<longrightarrow>
      contains (lit ''**Mode:** Live'') (report (fst ?send))"
    by (auto simp add: action_call_tool_send send_sms_real_def sms_response_live)
  have c4: "invoked ?query
        = [if DATABRICKS_HOST dcfg \<noteq> [] \<and> DATABRICKS_TOKEN dcfg \<noteq> []
           then Sql_Real (get_arg args (lit ''sql_query'') [])
           else Sql_Mock (get_arg args (lit ''sql_query'') [])]"
    by (simp add: data_call_tool_def Let_def)
  have c5: "\<not> (DATABRICKS_HOST dcfg \<noteq> [] \<and> DATABRICKS_TOKEN dcfg \<noteq> []) \<longrightarrow>
      contains (lit ''**Mode:** Demo (mock data)'') (report ?query)"
    by (auto simp add: data_call_tool_def Let_def query_response_mock_tag)
  have c6: "invoked ?lookup
        = [if FIREMETRICS_DB_HOST dcfg \<noteq> [] then Lookup_Real ?pid else Lookup_Mock ?pid]"
    by (simp add: data_call_tool_def Let_def)
  have c7: "FIREMETRICS_DB_HOST dcfg = [] \<and> PATIENT_DETAILS ?pid \<noteq> None \<longrightarrow>
      contains (lit ''*Using demo data - set FIREMETRICS_* env vars for real connection*'')
        (report ?lookup)"
    using lookup_response_mock_note [of ?pid]
    by (auto simp add: data_call_tool_def Let_def)
  have c8: "FIREMETRICS_DB_HOST dcfg = [] \<and> PATIENT_DETAILS ?pid = None \<longrightarrow>
      report ?lookup = lit ''## Patient Not Found'' @ nl @ nl @ lit ''No patient found with ID: '' @ ?pid"
    by (simp add: data_call_tool_def Let_def lookup_patient_details_mock_def
          lookup_response_def)
  from c1 c2 c3 c4 c5 c6 c7 c8 show ?thesis
    by (intro conjI)
qed

lemma PATIENT_DETAILS_patient_001: "PATIENT_DETAILS (lit ''patient-001'') \<noteq> None"
  by (simp add: PATIENT_DETAILS_def MOCK_PATIENTS_def)

theorem backend_selection_witness:
  "invoked (fst (action_call_tool no_twilio twilio_accepting noon (lit ''send_sms_notification'')
       [lit ''phone_number'' \<mapsto> (lit ''+15550000000''), lit ''message_body'' \<mapsto> (lit ''Reminder''),
        lit ''sql_query'' \<mapsto> (lit ''SELECT 1''), lit ''patient_id'' \<mapsto> (lit ''patient-001'')] []))
     = [Sms_Mock (lit ''+15550000000'') (lit ''Reminder'')]
   \<and> contains (lit ''**Mode:** Demo'')
       (report (fst (action_call_tool no_twilio twilio_accepting noon (lit ''send_sms_notification'')
          [lit ''phone_number'' \<mapsto> (lit ''+15550000000''), lit ''message_body'' \<mapsto> (lit ''Reminder''),
           lit ''sql_query'' \<mapsto> (lit ''SELECT 1''), lit ''patient_id'' \<mapsto> (lit ''patient-001'')] [])))
   \<and> invoked (data_call_tool example_lower no_data_config databricks_unreachable firemetrics_unreachable
        (lit ''execute_databricks_sql'')
        [lit ''phone_number'' \<mapsto> (lit ''+15550000000''), lit ''message_body'' \<mapsto> (lit ''Reminder''),
         lit ''sql_query'' \<mapsto> (lit ''SELECT 1''), lit ''patient_id'' \<mapsto> (lit ''patient-001'')])
     = [Sql_Mock (lit ''SELECT 1'')]
   \<and> contains (lit ''**Mode:** Demo (mock data)'')
       (report (data_call_tool example_lower no_data_config databricks_unreachable firemetrics_unreachable
          (lit ''execute_databricks_sql'')
          [lit ''phone_number'' \<mapsto> (lit ''+15550000000''), lit ''message_body'' \<mapsto> (lit ''Reminder''),
           lit ''sql_query'' \<mapsto> (lit ''SELECT 1''), lit ''patient_id'' \<mapsto> (lit ''patient-001'')]))
   \<and> contains (lit ''*Using demo data - set FIREMETRICS_* env vars for real connection*'')
       (report (data_call_tool example_lower no_data_config databricks_unreachable firemetrics_unreachable
          (lit ''lookup_patient_details'')
          [lit ''phone_number'' \<mapsto> (lit ''+15550000000''), lit ''message_body'' \<mapsto> (lit ''Reminder''),
           lit ''sql_query'' \<mapsto> (lit ''SELECT 1''), lit ''patient_id'' \<mapsto> (lit ''patient-001'')]))"
proof -
  let ?args = "[lit ''phone_number'' \<mapsto> (lit ''+15550000000''), lit ''message_body'' \<mapsto> (lit ''Reminder''),
                lit ''sql_query'' \<mapsto> (lit ''SELECT 1''), lit ''patient_id'' \<mapsto> (lit ''patient-001'')]"
  have g: "get_arg ?args (lit ''phone_number'') [] = lit ''+15550000000''"
    "get_arg ?args (lit ''message_body'') [] = lit ''Reminder''"
    "get_arg ?args (lit ''sql_query'') [] = lit ''SELECT 1''"
    "get_arg ?args (lit ''patient_id'') [] = lit ''patient-001''"
    by (simp_all add: get_arg_def)
  have cfg: "TWILIO_ACCOUNT_SID no_twilio = []" "DATABRICKS_HOST no_data_config = []"
    "FIREMETRICS_DB_HOST no_data_config = []"
    by (simp_all add: no_twilio_def no_data_config_def)
  note b = backend_selection
             [where args = ?args and cfg = no_twilio and client = twilio_accepting
                and clk = noon and S = "[]" and dcfg = no_data_config
                and str_lower = example_lower and databricks = databricks_unreachable
                and firemetrics = firemetrics_unreachable and sid = "lit ''SM0001''",
              unfolded g]
  show ?thesis
    using b cfg PATIENT_DETAILS_patient_001 by simp
qed

theorem backend_selection_counterexample:
  "TWILIO_FROM_NUMBER twilio_without_from = []
   \<and> invoked (fst (action_call_tool twilio_without_from twilio_accepting noon
        (lit ''send_sms_notification'')
        [lit ''phone_number'' \<mapsto> (lit ''+15550000000''), lit ''message_body'' \<mapsto> (lit ''Reminder'')] []))
      = [Sms_Real (lit ''+15550000000'') (lit ''Reminder'')]
   \<and> contains (lit ''**Mode:** Live'')
       (report (fst (action_call_tool twilio_without_from twilio_accepting noon
          (lit ''send_sms_notification'')
          [lit ''phone_number'' \<mapsto> (lit ''+15550000000''), lit ''message_body'' \<mapsto> (lit ''Reminder'')] [])))
   \<and> DATABRICKS_WAREHOUSE partial_data_config = []
   \<and> DATABRICKS_HTTP_PATH partial_data_config = []
   \<and> invoked (data_call_tool example_lower partial_data_config databricks_unreachable firemetrics_unreachable
        (lit ''execute_databricks_sql'') [lit ''sql_query'' \<mapsto> (lit ''SELECT 1'')])
      = [Sql_Real (lit ''SELECT 1'')]
   \<and> FIREMETRICS_API_KEY partial_data_config = []
   \<and> invoked (data_call_tool example_lower partial_data_config databricks_unreachable firemetrics_unreachable
        (lit ''lookup_patient_details'') [lit ''patient_id'' \<mapsto> (lit ''patient-001'')])
      = [Lookup_Real (lit ''patient-001'')]"
proof -
  let ?args = "[lit ''phone_number'' \<mapsto> (lit ''+15550000000''), lit ''message_body'' \<mapsto> (lit ''Reminder'')]"
  have send: "action_call_tool twilio_without_from twilio_accepting noon
        (lit ''send_sms_notification'') ?args []
      = (\<lparr>report = sms_response
            (Sms_Sent (lit ''SM0001'') (lit ''+15550000000'') (lit ''Reminder'') (lit ''2024-01-01T12:00:00'')),
          invoked = [Sms_Real (lit ''+15550000000'') (lit ''Reminder'')]\<rparr>, [])"
    by (simp add: action_call_tool_def get_arg_def Let_def twilio_without_from_def
          send_sms_real_def twilio_accepting_def noon_def)
  have live: "contains (lit ''**Mode:** Live'') (report (fst (action_call_tool twilio_without_from
        twilio_accepting noon (lit ''send_sms_notification'') ?args [])))"
    unfolding send fst_conv outcome.select_convs by (rule sms_response_live)
  have data: "invoked (data_call_tool example_lower partial_data_config databricks_unreachable
        firemetrics_unreachable (lit ''execute_databricks_sql'') [lit ''sql_query'' \<mapsto> (lit ''SELECT 1'')])
      = [Sql_Real (lit ''SELECT 1'')]"
    "invoked (data_call_tool example_lower partial_data_config databricks_unreachable firemetrics_unreachable
        (lit ''lookup_patient_details'') [lit ''patient_id'' \<mapsto> (lit ''patient-001'')])
      = [Lookup_Real (lit ''patient-001'')]"
    by (simp_all add: data_call_tool_def get_arg_def Let_def partial_data_config_def)
  have cfg: "TWILIO_FROM_NUMBER twilio_without_from = []"
    "DATABRICKS_WAREHOUSE partial_data_config = []"
    "DATABRICKS_HTTP_PATH partial_data_config = []"
    "FIREMETRICS_API_KEY partial_data_config = []"
    by (simp_all add: twilio_without_from_def partial_data_config_def)
  from send live data cfg show ?thesis by simp
qed

end
